theory Spec2Isabelle
  imports Complex_Main "HOL-Library.Sublist"
begin

section \<open>Python values\<close>

text \<open>
  The parameter bags of \<^verbatim>\<open>mcp_server.py\<close> and the messages of
  \<^verbatim>\<open>googleaiclient.py\<close> are dynamically typed JSON-like values. A dict is an
  association list read with \<open>map_of\<close>; a float is the real number a finite double
  denotes (JSON has no infinities and no NaN). Strings are lists of 8-bit characters.
\<close>

datatype pyval =
    PNone
  | PBool bool
  | PInt int
  | PFloat real
  | PStr string
  | PList "pyval list"
  | PDict "(string \<times> pyval) list"

type_synonym pydict = "(string \<times> pyval) list"

text \<open>\<^verbatim>\<open>d.get(k, default)\<close>; \<^verbatim>\<open>d.get(k)\<close> is \<open>py_get d k PNone\<close>.\<close>

definition py_get :: "pydict \<Rightarrow> string \<Rightarrow> pyval \<Rightarrow> pyval" where
  "py_get d k dflt = (case map_of d k of None \<Rightarrow> dflt | Some v \<Rightarrow> v)"

text \<open>\<^verbatim>\<open>type(v).__name__\<close>, as it appears in the interpreter's error messages.\<close>

fun type_name :: "pyval \<Rightarrow> string" where
  "type_name PNone = ''NoneType''"
| "type_name (PBool _) = ''bool''"
| "type_name (PInt _) = ''int''"
| "type_name (PFloat _) = ''float''"
| "type_name (PStr _) = ''str''"
| "type_name (PList _) = ''list''"
| "type_name (PDict _) = ''dict''"

text \<open>
  Exceptions derived from \<^verbatim>\<open>Exception\<close>: the class decides which \<^verbatim>\<open>except\<close>
  clause catches them, the string is \<^verbatim>\<open>str(e)\<close>.
\<close>

datatype exc_class =
    ImportError
  | AttributeError
  | TypeError
  | KeyError
  | FileNotFoundError
  | UnidentifiedImageError
  | OtherException string

datatype exception = Exc exc_class string

fun class_name :: "exc_class \<Rightarrow> string" where
  "class_name ImportError = ''ImportError''"
| "class_name AttributeError = ''AttributeError''"
| "class_name TypeError = ''TypeError''"
| "class_name KeyError = ''KeyError''"
| "class_name FileNotFoundError = ''FileNotFoundError''"
| "class_name UnidentifiedImageError = ''UnidentifiedImageError''"
| "class_name (OtherException n) = n"

text \<open>A name between single quotes, as the interpreter prints it.\<close>

definition quoted :: "string \<Rightarrow> string" where
  "quoted s = [CHR 0x27] @ s @ [CHR 0x27]"

definition no_attribute :: "pyval \<Rightarrow> string \<Rightarrow> exception" where
  "no_attribute v a =
     Exc AttributeError (quoted (type_name v) @ '' object has no attribute '' @ quoted a)"

text \<open>\<^verbatim>\<open>str.lower\<close> on ASCII text.\<close>

definition lower_char :: "char \<Rightarrow> char" where
  "lower_char c =
     (case map_of (zip ''ABCDEFGHIJKLMNOPQRSTUVWXYZ'' ''abcdefghijklmnopqrstuvwxyz'') c of
        None \<Rightarrow> c
      | Some d \<Rightarrow> d)"

definition lower :: "string \<Rightarrow> string" where
  "lower s = map lower_char s"

section \<open>The action dispatcher (\<^verbatim>\<open>mcp_server.py\<close>)\<close>

subsection \<open>The backend capability and the effects of a call\<close>

text \<open>
  One invocation of \<^verbatim>\<open>computer_tool_instance(action=, text=, coordinate=, **kwargs)\<close>
  (the field \<open>text_arg\<close> is the argument \<^verbatim>\<open>text\<close>).
\<close>

record call =
  action :: string
  text_arg :: pyval
  coordinate :: "(pyval \<times> pyval) option"
  kwargs :: pydict

text \<open>
  A \<^verbatim>\<open>ToolResult\<close>: its \<^verbatim>\<open>output\<close>, and its \<^verbatim>\<open>base64_image\<close> attribute when the
  object has one.
\<close>

record tool_result =
  result_output :: pyval
  result_base64_image :: "pyval option"

text \<open>
  The backend is a parameter. What the \<^verbatim>\<open>try\<close> statement around an invocation can
  see: a result, the backend's \<^verbatim>\<open>ToolError\<close>, or another exception derived from
  \<^verbatim>\<open>Exception\<close>, the last two with their \<^verbatim>\<open>str(e)\<close>. No handler invokes the backend
  more than once, so its answer to a call is a function of the call.
\<close>

datatype backend_outcome =
    Returns tool_result
  | RaisesToolError string
  | RaisesException string

type_synonym backend = "call \<Rightarrow> backend_outcome"

text \<open>
  What a handler does to the world, in order: backend invocations and
  \<^verbatim>\<open>asyncio.sleep\<close> delays. A handler yields its trace and either the envelope it
  returns or the exception it lets through to the registry.
\<close>

datatype event = Invoke call | Sleep pyval

type_synonym envelope = pydict

type_synonym handler_result = "event list \<times> (exception + envelope)"

definition success_envelope :: "pyval \<Rightarrow> pyval \<Rightarrow> envelope" where
  "success_envelope out img =
     [(''status'', PStr ''success''), (''output'', out), (''base64_image'', img)]"

definition error_envelope :: "string \<Rightarrow> envelope" where
  "error_envelope m = [(''status'', PStr ''error''), (''message'', PStr m)]"

subsection \<open>\<^verbatim>\<open>safe_computer_action\<close>\<close>

definition safe_computer_action ::
  "backend \<Rightarrow> string \<Rightarrow> pyval \<Rightarrow> (pyval \<times> pyval) option \<Rightarrow> pydict \<Rightarrow> handler_result" where
  "safe_computer_action b action_str text_arg' coord kw =
     (let c = \<lparr>action = action_str, text_arg = text_arg', coordinate = coord, kwargs = kw\<rparr> in
      ([Invoke c],
       Inr (case b c of
              Returns tool_result \<Rightarrow>
                success_envelope (result_output tool_result)
                  (case result_base64_image tool_result of None \<Rightarrow> PNone | Some img \<Rightarrow> img)
            | RaisesToolError m \<Rightarrow> error_envelope m
            | RaisesException m \<Rightarrow> error_envelope (''Unexpected error in ComputerTool: '' @ m))))"

subsection \<open>The handlers\<close>

definition handle_mouse_move :: "backend \<Rightarrow> pydict \<Rightarrow> handler_result" where
  "handle_mouse_move b params =
     (let x = py_get params ''x'' PNone;
          y = py_get params ''y'' PNone
      in if x = PNone \<or> y = PNone
         then ([], Inr (error_envelope ''Missing x or y coordinate.''))
         else safe_computer_action b ''mouse_move'' PNone (Some (x, y)) [])"

definition action_map :: "((string \<times> string) \<times> string) list" where
  "action_map =
     [((''left'', ''click''), ''left_click''),
      ((''right'', ''click''), ''right_click''),
      ((''middle'', ''click''), ''middle_click''),
      ((''left'', ''double''), ''double_click'')]"

text \<open>
  \<^verbatim>\<open>button.lower()\<close> is evaluated before \<^verbatim>\<open>click_type.lower()\<close>; on a value that is
  not a string the attribute lookup raises, outside any \<^verbatim>\<open>try\<close>.
\<close>

definition handle_mouse_click :: "backend \<Rightarrow> pydict \<Rightarrow> handler_result" where
  "handle_mouse_click b params =
     (let button = py_get params ''button'' (PStr ''left'');
          click_type = py_get params ''click_type'' (PStr ''click'')
      in case button of
           PStr bs \<Rightarrow>
             (case click_type of
                PStr cs \<Rightarrow>
                  (let unsupported =
                         ([], Inr (error_envelope
                                     (''Unsupported button/click_type: '' @ bs @ ''/'' @ cs)))
                   in case map_of action_map (lower bs, lower cs) of
                        None \<Rightarrow> unsupported
                      | Some computer_action_str \<Rightarrow>
                          if computer_action_str = [] then unsupported
                          else safe_computer_action b computer_action_str PNone None [])
              | _ \<Rightarrow> ([], Inl (no_attribute click_type ''lower'')))
         | _ \<Rightarrow> ([], Inl (no_attribute button ''lower'')))"

definition handle_mouse_drag :: "backend \<Rightarrow> pydict \<Rightarrow> handler_result" where
  "handle_mouse_drag b params =
     (let x = py_get params ''x'' PNone;
          y = py_get params ''y'' PNone
      in if x = PNone \<or> y = PNone
         then ([], Inr (error_envelope ''Missing x or y coordinate for drag.''))
         else safe_computer_action b ''left_click_drag'' PNone (Some (x, y)) [])"

definition handle_keyboard_type :: "backend \<Rightarrow> pydict \<Rightarrow> handler_result" where
  "handle_keyboard_type b params =
     (let text_to_type = py_get params ''text_to_type'' PNone
      in if text_to_type = PNone
         then ([], Inr (error_envelope ''Missing text_to_type.''))
         else safe_computer_action b ''type'' text_to_type None [])"

definition handle_keyboard_press_key :: "backend \<Rightarrow> pydict \<Rightarrow> handler_result" where
  "handle_keyboard_press_key b params =
     (let key_to_press = py_get params ''key_to_press'' PNone
      in if key_to_press = PNone
         then ([], Inr (error_envelope ''Missing key_to_press.''))
         else safe_computer_action b ''key'' key_to_press None [])"

definition handle_get_cursor_position :: "backend \<Rightarrow> pydict \<Rightarrow> handler_result" where
  "handle_get_cursor_position b params = safe_computer_action b ''cursor_position'' PNone None []"

text \<open>
  \<^verbatim>\<open>duration > 0\<close>: numbers compare with zero (\<^verbatim>\<open>bool\<close> is a subclass of
  \<^verbatim>\<open>int\<close>), any other value raises \<^verbatim>\<open>TypeError\<close>.
\<close>

fun gt_zero :: "pyval \<Rightarrow> exception + bool" where
  "gt_zero (PInt i) = Inr (0 < i)"
| "gt_zero (PFloat r) = Inr (0 < r)"
| "gt_zero (PBool v) = Inr v"
| "gt_zero v =
     Inl (Exc TypeError (quoted ''>'' @ '' not supported between instances of ''
                          @ quoted (type_name v) @ '' and '' @ quoted ''int''))"

text \<open>
  The first argument is the interpreter's \<^verbatim>\<open>str\<close> on numbers, used by the f-string.
\<close>

definition handle_wait_seconds :: "(pyval \<Rightarrow> string) \<Rightarrow> backend \<Rightarrow> pydict \<Rightarrow> handler_result" where
  "handle_wait_seconds py_str b params =
     (let duration = py_get params ''duration'' (PFloat 0)
      in case gt_zero duration of
           Inl e \<Rightarrow> ([], Inl e)
         | Inr True \<Rightarrow>
             ([Sleep duration],
              Inr [(''status'', PStr ''success''),
                   (''output'', PStr (''Waited for '' @ py_str duration @ '' seconds.''))])
         | Inr False \<Rightarrow> safe_computer_action b ''wait'' PNone None [])"


text \<open>The seven registered entry points.\<close>

definition entry_points :: "(pyval \<Rightarrow> string) \<Rightarrow> (backend \<Rightarrow> pydict \<Rightarrow> handler_result) list" where
  "entry_points py_str =
     [handle_mouse_move, handle_mouse_click, handle_mouse_drag, handle_keyboard_type,
      handle_keyboard_press_key, handle_get_cursor_position, handle_wait_seconds py_str]"

section \<open>The message-history adapter and the generation call (\<^verbatim>\<open>googleaiclient.py\<close>)\<close>

subsection \<open>Files and images\<close>

text \<open>
  \<^verbatim>\<open>is_image_path\<close> is imported from the module \<^verbatim>\<open>.utils\<close>, which is not among the
  sources: it is a parameter, together with the file system as \<^verbatim>\<open>os.path.exists\<close>
  and \<^verbatim>\<open>Image.open\<close> see it. \<open>'img\<close> is the type of loaded image objects.
\<close>

datatype 'img open_outcome = Opened 'img | OpenRaises exception

record 'img files =
  is_image_path :: "string \<Rightarrow> bool"
  path_exists :: "string \<Rightarrow> bool"
  image_open :: "string \<Rightarrow> 'img open_outcome"

text \<open>\<^verbatim>\<open>os.path.basename\<close> (POSIX): what follows the last slash.\<close>

definition basename :: "string \<Rightarrow> string" where
  "basename p = rev (takeWhile (\<lambda>c. c \<noteq> CHR ''/'') (rev p))"

text \<open>An entry of \<^verbatim>\<open>gemini_parts\<close>: a value taken from the message, or a loaded image.\<close>

datatype 'img part = PartValue pyval | PartImage 'img

record 'img turn =
  role :: pyval
  parts :: "'img part list"

text \<open>Lines 72 to 87: the \<^verbatim>\<open>try\<close> around the image load, with its three handlers.\<close>

definition load_image :: "'img files \<Rightarrow> string \<Rightarrow> 'img part" where
  "load_image fs item =
     (if path_exists fs item
      then (case image_open fs item of
              Opened img \<Rightarrow> PartImage img
            | OpenRaises (Exc cls m) \<Rightarrow>
                if cls = FileNotFoundError
                then PartValue (PStr (''[Image not found: '' @ basename item @ '']''))
                else if cls = UnidentifiedImageError
                then PartValue (PStr (''[Unidentifiable image: '' @ basename item @ '']''))
                else PartValue (PStr (''[Error loading image: '' @ basename item @ '']'')))
      else PartValue (PStr (''[Image not found: '' @ basename item @ '']'')))"

text \<open>
  One pass of the inner loop body: the parts one content item appends, or the exception
  it raises (\<^verbatim>\<open>item["text"]\<close> on a dict without that key).
\<close>

fun process_item :: "'img files \<Rightarrow> pyval \<Rightarrow> exception + 'img part list" where
  "process_item fs (PDict item) =
     (if py_get item ''type'' PNone = PStr ''text''
      then (case map_of item ''text'' of
              None \<Rightarrow> Inl (Exc KeyError (quoted ''text''))
            | Some t \<Rightarrow> Inr [PartValue t])
      else Inr [])"
| "process_item fs (PStr item) =
     (if is_image_path fs item then Inr [load_image fs item] else Inr [PartValue (PStr item)])"
| "process_item fs _ = Inr []"

fun process_items :: "'img files \<Rightarrow> pyval list \<Rightarrow> 'img part list \<Rightarrow> exception + 'img part list" where
  "process_items fs [] gemini_parts = Inr gemini_parts"
| "process_items fs (item # items) gemini_parts =
     (case process_item fs item of
        Inl e \<Rightarrow> Inl e
      | Inr ps \<Rightarrow> process_items fs items (gemini_parts @ ps))"

text \<open>Lines 66 to 91: the part list of a message content.\<close>

definition process_content :: "'img files \<Rightarrow> pyval \<Rightarrow> exception + 'img part list" where
  "process_content fs content =
     (case content of
        PList items \<Rightarrow> process_items fs items []
      | PStr s \<Rightarrow> Inr [PartValue (PStr s)]
      | _ \<Rightarrow> Inr [])"

text \<open>
  Lines 64 to 94, the rest of the loop body once the role is remapped: \<open>Inr None\<close> is
  a \<^verbatim>\<open>continue\<close> or an empty part list, \<open>Inr (Some t)\<close> the turn appended to
  \<^verbatim>\<open>gemini_history\<close>.
\<close>

definition adapt_with_role :: "'img files \<Rightarrow> pyval \<Rightarrow> pyval \<Rightarrow> exception + 'img turn option" where
  "adapt_with_role fs role' content =
     (if role' \<notin> set [PStr ''user'', PStr ''model''] then Inr None
      else (case process_content fs content of
              Inl e \<Rightarrow> Inl e
            | Inr gemini_parts \<Rightarrow>
                if gemini_parts \<noteq> []
                then Inr (Some \<lparr>role = role', parts = gemini_parts\<rparr>)
                else Inr None))"

text \<open>Lines 58 to 94, the body of the loop over the messages.\<close>

definition adapt_message :: "'img files \<Rightarrow> pydict \<Rightarrow> exception + 'img turn option" where
  "adapt_message fs msg =
     (let role' = py_get msg ''role'' PNone;
          content = py_get msg ''content'' PNone
      in if role' = PStr ''assistant'' then adapt_with_role fs (PStr ''model'') content
         else if role' = PStr ''tool'' then Inr None
         else adapt_with_role fs role' content)"

fun adapt_history ::
  "'img files \<Rightarrow> pydict list \<Rightarrow> 'img turn list \<Rightarrow> exception + 'img turn list" where
  "adapt_history fs [] gemini_history = Inr gemini_history"
| "adapt_history fs (msg # msgs) gemini_history =
     (case adapt_message fs msg of
        Inl e \<Rightarrow> Inl e
      | Inr None \<Rightarrow> adapt_history fs msgs gemini_history
      | Inr (Some t) \<Rightarrow> adapt_history fs msgs (gemini_history @ [t]))"

subsection \<open>The remote generation API\<close>

text \<open>
  The client library is a parameter: each call may raise. \<^verbatim>\<open>response.text\<close> and
  \<^verbatim>\<open>response.usage_metadata\<close> are attribute reads that may raise (the second with
  \<^verbatim>\<open>AttributeError\<close> when the response has no such attribute); each count of the
  metadata may be missing (the counts are the integers of the API's message type).
\<close>

record usage_metadata =
  prompt_token_count :: "int option"
  candidates_token_count :: "int option"

record response =
  response_text_attr :: "exception + string"
  response_usage :: "exception + usage_metadata"

record 'img genai =
  configure :: "string \<Rightarrow> exception option"
  GenerativeModel :: "string \<Rightarrow> pyval \<Rightarrow> exception option"
  GenerationConfig :: "int \<Rightarrow> real \<Rightarrow> exception option"
  generate_content ::
    "string \<Rightarrow> pyval \<Rightarrow> 'img turn list \<Rightarrow> int \<Rightarrow> real \<Rightarrow> exception + response"

text \<open>The two locals the function returns.\<close>

record locals =
  response_text :: string
  token_info :: pydict

definition token_dict :: "int \<Rightarrow> int \<Rightarrow> int \<Rightarrow> pydict" where
  "token_dict input_tokens output_tokens total_tokens =
     [(''input_tokens'', PInt input_tokens), (''output_tokens'', PInt output_tokens),
      (''total_tokens'', PInt total_tokens)]"

text \<open>
  Lines 42 to 114, the body of the outer \<^verbatim>\<open>try\<close>: the locals when it ends, and the
  exception that ended it, if any. On message values \<^verbatim>\<open>copy.deepcopy\<close> is the
  identity. The inner \<^verbatim>\<open>try\<close> absorbs an \<^verbatim>\<open>AttributeError\<close> of the metadata read
  and lets any other exception through to the outer handlers.
\<close>

definition gemini_try ::
  "'img genai \<Rightarrow> 'img files \<Rightarrow> pydict list \<Rightarrow> string \<Rightarrow> string \<Rightarrow> string \<Rightarrow> int \<Rightarrow> real \<Rightarrow>
   locals \<Rightarrow> locals \<times> exception option" where
  "gemini_try api fs messages system model_name api_key max_tokens temperature st =
     (case configure api api_key of
        Some e \<Rightarrow> (st, Some e)
      | None \<Rightarrow>
     (let system_content = (if system \<noteq> [] then PStr system else PNone) in
      case GenerativeModel api model_name system_content of
        Some e \<Rightarrow> (st, Some e)
      | None \<Rightarrow>
     (let processed_messages = messages in
      case adapt_history fs processed_messages [] of
        Inl e \<Rightarrow> (st, Some e)
      | Inr gemini_history \<Rightarrow>
     (case GenerationConfig api max_tokens temperature of
        Some e \<Rightarrow> (st, Some e)
      | None \<Rightarrow>
     (case generate_content api model_name system_content gemini_history max_tokens temperature of
        Inl e \<Rightarrow> (st, Some e)
      | Inr response \<Rightarrow>
     (case response_text_attr response of
        Inl e \<Rightarrow> (st, Some e)
      | Inr t \<Rightarrow>
     (let st1 = st\<lparr>response_text := t\<rparr> in
      case response_usage response of
        Inl (Exc cls m) \<Rightarrow>
          if cls = AttributeError then (st1, None) else (st1, Some (Exc cls m))
      | Inr um \<Rightarrow>
          (let input_tokens = (case prompt_token_count um of None \<Rightarrow> 0 | Some n \<Rightarrow> n);
               output_tokens = (case candidates_token_count um of None \<Rightarrow> 0 | Some n \<Rightarrow> n)
           in (st1\<lparr>token_info :=
                      token_dict input_tokens output_tokens (input_tokens + output_tokens)\<rparr>,
               None)))))))))"

text \<open>Lines 38 to 132: the outer handlers turn the exception into the returned text.\<close>

definition run_gemini_interleaved ::
  "'img genai \<Rightarrow> 'img files \<Rightarrow> pydict list \<Rightarrow> string \<Rightarrow> string \<Rightarrow> string \<Rightarrow> int \<Rightarrow> real \<Rightarrow>
   string \<times> pydict" where
  "run_gemini_interleaved api fs messages system model_name api_key max_tokens temperature =
     (let st0 = \<lparr>response_text = [], token_info = token_dict 0 0 0\<rparr> in
      case gemini_try api fs messages system model_name api_key max_tokens temperature st0 of
        (st, None) \<Rightarrow> (response_text st, token_info st)
      | (st, Some (Exc cls m)) \<Rightarrow>
          (if cls = ImportError
           then ''ImportError: Please install google-generativeai. '' @ m
           else if cls = AttributeError
           then ''Error setting up Gemini call (AttributeError): '' @ m @ ''.''
           else if cls = TypeError
           then ''Type error during Gemini call (check arguments/version): '' @ m @ ''.''
           else ''Error interacting with Gemini API: '' @ class_name cls @ '' - '' @ m,
           token_info st))"

subsection \<open>Vocabulary of the properties\<close>

text \<open>A content item the inner loop has a branch for: a string, or a dict of type text.\<close>

definition recognised_item :: "pyval \<Rightarrow> bool" where
  "recognised_item item =
     (case item of
        PStr _ \<Rightarrow> True
      | PDict d \<Rightarrow> map_of d ''type'' = Some (PStr ''text'')
      | _ \<Rightarrow> False)"



section \<open>Sample environments\<close>

text \<open>A backend that fails on typing, breaks on key presses and performs the rest.\<close>

definition sample_backend :: backend where
  "sample_backend c =
     (if action c = ''type'' then RaisesToolError ''keyboard unavailable''
      else if action c = ''key'' then RaisesException ''device lost''
      else Returns \<lparr>result_output = PStr (''done '' @ action c),
                     result_base64_image =
                       (if action c = ''cursor_position'' then None else Some (PStr ''aW1hZ2U=''))\<rparr>)"

definition sample_str :: "pyval \<Rightarrow> string" where
  "sample_str v = (if v = PFloat 2.5 then ''2.5'' else if v = PInt 3 then ''3'' else ''?'')"

text \<open>
  A directory with one good image, one file that is no image and one that cannot be
  read; every path ending in \<^verbatim>\<open>.png\<close> counts as an image reference.
\<close>

definition sample_files :: "string files" where
  "sample_files =
     \<lparr>is_image_path = (\<lambda>p. take 4 (rev p) = rev ''.png''),
      path_exists = (\<lambda>p. p \<in> set [''/tmp/shots/ok.png'', ''/tmp/shots/broken.png'',
                                     ''/tmp/shots/locked.png'', ''/tmp/shots/gone.png'']),
      image_open = (\<lambda>p. if p = ''/tmp/shots/ok.png'' then Opened ''pixels of ok.png''
                          else if p = ''/tmp/shots/broken.png''
                          then OpenRaises (Exc UnidentifiedImageError ''cannot identify image file'')
                          else if p = ''/tmp/shots/locked.png''
                          then OpenRaises (Exc (OtherException ''PermissionError'')
                                             ''[Errno 13] Permission denied'')
                          else OpenRaises (Exc FileNotFoundError
                                             ''[Errno 2] No such file or directory''))\<rparr>"

text \<open>
  A client library that is missing for the empty credential, rejects an empty model
  name and an empty history, and answers seven tokens in, five out otherwise; the
  model \<open>no-usage\<close> answers, but reading its usage fails.
\<close>

definition sample_genai :: "string genai" where
  "sample_genai =
     \<lparr>configure = (\<lambda>key. if key = [] then Some (Exc ImportError ''No module named google'')
                           else None),
      GenerativeModel = (\<lambda>name sys. if name = []
                                      then Some (Exc TypeError ''model_name must be a string'')
                                      else None),
      GenerationConfig = (\<lambda>max_tokens temperature. None),
      generate_content = (\<lambda>name sys history max_tokens temperature.
                            if history = []
                            then Inl (Exc (OtherException ''ValueError'') ''contents must not be empty'')
                            else Inr \<lparr>response_text_attr = Inr ''hello'',
                                      response_usage =
                                        (if name = ''no-usage''
                                         then Inl (Exc (OtherException ''ValueError'')
                                                     ''usage unavailable'')
                                         else Inr \<lparr>prompt_token_count = Some 7,
                                                    candidates_token_count = Some 5\<rparr>)\<rparr>)\<rparr>"

section \<open>The adapter on an object store\<close>

text \<open>
  To speak of who owns a list or a dict, objects get addresses. A reference is an
  immutable value held inline, a loaded image, or the address of a mutable object; the
  store is the list of the objects allocated so far, an address being a position in it.
  Allocation appends; \<^verbatim>\<open>list.append\<close> and \<^verbatim>\<open>d[k] = v\<close> overwrite the object at an
  address.
\<close>

type_synonym addr = nat

datatype atom = ANone | ABool bool | AInt int | AFloat real | AStr string

datatype 'img ref = Imm atom | Loaded 'img | Ref addr

datatype 'img obj = ListObj "'img ref list" | DictObj "(string \<times> 'img ref) list"

type_synonym 'img store = "'img obj list"

definition deref :: "'img store \<Rightarrow> addr \<Rightarrow> 'img obj option" where
  "deref h a = (if a < length h then Some (h ! a) else None)"

definition list_append :: "'img store \<Rightarrow> addr \<Rightarrow> 'img ref \<Rightarrow> 'img store" where
  "list_append h y r =
     (case deref h y of
        Some (ListObj rs) \<Rightarrow> h[y := ListObj (rs @ [r])]
      | _ \<Rightarrow> h)"

fun dict_update :: "string \<Rightarrow> 'img ref \<Rightarrow> (string \<times> 'img ref) list \<Rightarrow> (string \<times> 'img ref) list" where
  "dict_update k v [] = [(k, v)]"
| "dict_update k v ((k', v') # kvs) =
     (if k = k' then (k, v) # kvs else (k', v') # dict_update k v kvs)"

definition dict_set :: "'img store \<Rightarrow> addr \<Rightarrow> string \<Rightarrow> 'img ref \<Rightarrow> 'img store" where
  "dict_set h y k r =
     (case deref h y of
        Some (DictObj kvs) \<Rightarrow> h[y := DictObj (dict_update k r kvs)]
      | _ \<Rightarrow> h)"

definition recursion_error :: exception where
  "recursion_error = Exc (OtherException ''RecursionError'') ''maximum recursion depth exceeded''"

text \<open>An address with no object behind it; no Python program can hold one.\<close>

definition dangling :: exception where
  "dangling = Exc (OtherException ''SystemError'') ''reference to no object''"

text \<open>
  \<^verbatim>\<open>copy.deepcopy(x, memo)\<close>. The first argument is the recursion depth the interpreter
  still allows. Immutable values are returned as they are; a list or dict already in
  the memo is answered from it; otherwise a new empty object is allocated, entered in
  the memo and filled with the copies of the elements, in order. The store and the memo
  are returned also when the copy ends in an exception.
\<close>

type_synonym memo = "(addr \<times> addr) list"

fun deepcopy ::
    "nat \<Rightarrow> 'img store \<Rightarrow> memo \<Rightarrow> 'img ref \<Rightarrow> 'img store \<times> memo \<times> (exception + 'img ref)"
  and deepcopy_list ::
    "nat \<Rightarrow> 'img store \<Rightarrow> memo \<Rightarrow> addr \<Rightarrow> 'img ref list \<Rightarrow> 'img store \<times> memo \<times> exception option"
  and deepcopy_dict ::
    "nat \<Rightarrow> 'img store \<Rightarrow> memo \<Rightarrow> addr \<Rightarrow> (string \<times> 'img ref) list \<Rightarrow>
       'img store \<times> memo \<times> exception option"
where
  "deepcopy depth h memo (Imm a) = (h, memo, Inr (Imm a))"
| "deepcopy depth h memo (Loaded img) = (h, memo, Inr (Loaded img))"
| "deepcopy 0 h memo (Ref x) =
     (case map_of memo x of
        Some y \<Rightarrow> (h, memo, Inr (Ref y))
      | None \<Rightarrow> (h, memo, Inl recursion_error))"
| "deepcopy (Suc depth) h memo (Ref x) =
     (case map_of memo x of
        Some y \<Rightarrow> (h, memo, Inr (Ref y))
      | None \<Rightarrow>
          (case deref h x of
             None \<Rightarrow> (h, memo, Inl dangling)
           | Some (ListObj rs) \<Rightarrow>
               (let y = length h in
                case deepcopy_list depth (h @ [ListObj []]) ((x, y) # memo) y rs of
                  (h', memo', None) \<Rightarrow> (h', memo', Inr (Ref y))
                | (h', memo', Some e) \<Rightarrow> (h', memo', Inl e))
           | Some (DictObj kvs) \<Rightarrow>
               (let y = length h in
                case deepcopy_dict depth (h @ [DictObj []]) ((x, y) # memo) y kvs of
                  (h', memo', None) \<Rightarrow> (h', memo', Inr (Ref y))
                | (h', memo', Some e) \<Rightarrow> (h', memo', Inl e))))"
| "deepcopy_list depth h memo y [] = (h, memo, None)"
| "deepcopy_list depth h memo y (a # rs) =
     (case deepcopy depth h memo a of
        (h', memo', Inl e) \<Rightarrow> (h', memo', Some e)
      | (h', memo', Inr a') \<Rightarrow> deepcopy_list depth (list_append h' y a') memo' y rs)"
| "deepcopy_dict depth h memo y [] = (h, memo, None)"
| "deepcopy_dict depth h memo y ((key, val) # kvs) =
     (case deepcopy depth h memo val of
        (h', memo', Inl e) \<Rightarrow> (h', memo', Some e)
      | (h', memo', Inr val') \<Rightarrow> deepcopy_dict depth (dict_set h' y key val') memo' y kvs)"

text \<open>\<^verbatim>\<open>d.get(k)\<close> on the fields of a dict object.\<close>

definition get_ref :: "(string \<times> 'img ref) list \<Rightarrow> string \<Rightarrow> 'img ref" where
  "get_ref d k = (case map_of d k of None \<Rightarrow> Imm ANone | Some r \<Rightarrow> r)"

definition ref_type_name :: "'img store \<Rightarrow> 'img ref \<Rightarrow> string" where
  "ref_type_name h r =
     (case r of
        Imm ANone \<Rightarrow> ''NoneType''
      | Imm (ABool _) \<Rightarrow> ''bool''
      | Imm (AInt _) \<Rightarrow> ''int''
      | Imm (AFloat _) \<Rightarrow> ''float''
      | Imm (AStr _) \<Rightarrow> ''str''
      | Loaded _ \<Rightarrow> ''Image''
      | Ref a \<Rightarrow> (case deref h a of Some (DictObj _) \<Rightarrow> ''dict'' | _ \<Rightarrow> ''list''))"

definition no_get :: "'img store \<Rightarrow> 'img ref \<Rightarrow> exception" where
  "no_get h r =
     Exc AttributeError (quoted (ref_type_name h r) @ '' object has no attribute '' @ quoted ''get'')"

text \<open>The part \<open>load_image\<close> yields, as a reference.\<close>

definition loaded_ref :: "'img part \<Rightarrow> 'img ref" where
  "loaded_ref p =
     (case p of
        PartImage img \<Rightarrow> Loaded img
      | PartValue (PStr s) \<Rightarrow> Imm (AStr s)
      | PartValue _ \<Rightarrow> Imm ANone)"

text \<open>
  Lines 69 to 89 on the store: what one item appends to \<^verbatim>\<open>gemini_parts\<close>, if
  anything.
\<close>

definition item_ref :: "'img files \<Rightarrow> 'img store \<Rightarrow> 'img ref \<Rightarrow> exception + 'img ref option" where
  "item_ref fs h item =
     (case item of
        Ref a \<Rightarrow>
          (case deref h a of
             Some (DictObj d) \<Rightarrow>
               if get_ref d ''type'' = Imm (AStr ''text'')
               then (case map_of d ''text'' of
                       None \<Rightarrow> Inl (Exc KeyError (quoted ''text''))
                     | Some t \<Rightarrow> Inr (Some t))
               else Inr None
           | _ \<Rightarrow> Inr None)
      | Imm (AStr s) \<Rightarrow>
          Inr (Some (if is_image_path fs s then loaded_ref (load_image fs s) else Imm (AStr s)))
      | _ \<Rightarrow> Inr None)"

fun items_loop ::
  "'img files \<Rightarrow> 'img store \<Rightarrow> addr \<Rightarrow> 'img ref list \<Rightarrow> 'img store \<times> exception option" where
  "items_loop fs h gemini_parts [] = (h, None)"
| "items_loop fs h gemini_parts (item # items) =
     (case item_ref fs h item of
        Inl e \<Rightarrow> (h, Some e)
      | Inr None \<Rightarrow> items_loop fs h gemini_parts items
      | Inr (Some r) \<Rightarrow> items_loop fs (list_append h gemini_parts r) gemini_parts items)"

text \<open>
  Lines 64 to 94 on the store: a new list \<^verbatim>\<open>gemini_parts\<close> is allocated and filled,
  and when it is not empty a new dict is allocated for the turn and appended to
  \<^verbatim>\<open>gemini_history\<close>.
\<close>

definition turn_in_store ::
  "'img files \<Rightarrow> 'img store \<Rightarrow> addr \<Rightarrow> 'img ref \<Rightarrow> 'img ref \<Rightarrow> 'img store \<times> exception option" where
  "turn_in_store fs h gemini_history role' content =
     (if role' \<notin> set [Imm (AStr ''user''), Imm (AStr ''model'')] then (h, None)
      else
        (let gemini_parts = length h;
             h1 = h @ [ListObj []]
         in case (case content of
                    Ref c \<Rightarrow>
                      (case deref h1 c of
                         Some (ListObj items) \<Rightarrow> items_loop fs h1 gemini_parts items
                       | _ \<Rightarrow> (h1, None))
                  | Imm (AStr s) \<Rightarrow> (list_append h1 gemini_parts (Imm (AStr s)), None)
                  | _ \<Rightarrow> (h1, None)) of
              (h2, Some e) \<Rightarrow> (h2, Some e)
            | (h2, None) \<Rightarrow>
                (case deref h2 gemini_parts of
                   Some (ListObj (p # ps)) \<Rightarrow>
                     (let t = length h2;
                          h3 = h2 @ [DictObj [(''role'', role'), (''parts'', Ref gemini_parts)]]
                      in (list_append h3 gemini_history (Ref t), None))
                 | _ \<Rightarrow> (h2, None))))"

text \<open>Lines 58 to 94 on the store, for one message.\<close>

definition message_in_store ::
  "'img files \<Rightarrow> 'img store \<Rightarrow> addr \<Rightarrow> 'img ref \<Rightarrow> 'img store \<times> exception option" where
  "message_in_store fs h gemini_history msg =
     (case (case msg of Ref a \<Rightarrow> deref h a | _ \<Rightarrow> None) of
        Some (DictObj d) \<Rightarrow>
          (let role' = get_ref d ''role'';
               content = get_ref d ''content''
           in if role' = Imm (AStr ''assistant'')
              then turn_in_store fs h gemini_history (Imm (AStr ''model'')) content
              else if role' = Imm (AStr ''tool'') then (h, None)
              else turn_in_store fs h gemini_history role' content)
      | _ \<Rightarrow> (h, Some (no_get h msg)))"

fun messages_loop ::
  "'img files \<Rightarrow> 'img store \<Rightarrow> addr \<Rightarrow> 'img ref list \<Rightarrow> 'img store \<times> exception option" where
  "messages_loop fs h gemini_history [] = (h, None)"
| "messages_loop fs h gemini_history (msg # msgs) =
     (case message_in_store fs h gemini_history msg of
        (h', Some e) \<Rightarrow> (h', Some e)
      | (h', None) \<Rightarrow> messages_loop fs h' gemini_history msgs)"

text \<open>
  Lines 55 to 94 on the store: \<^verbatim>\<open>gemini_history\<close> is allocated, the messages are
  copied, and the loop runs over the copy. \<open>messages\<close> is the address of the caller's
  list (the annotation promises a list; for any other object the model raises). The
  result is the store after the call, and the reference to the adapted history or the
  exception that ended the adaptation.
\<close>

definition adapt_in_store ::
  "'img files \<Rightarrow> nat \<Rightarrow> 'img store \<Rightarrow> addr \<Rightarrow> 'img store \<times> (exception + 'img ref)" where
  "adapt_in_store fs depth h messages =
     (let gemini_history = length h;
          h1 = h @ [ListObj []]
      in case deepcopy depth h1 [] (Ref messages) of
           (h2, memo, Inl e) \<Rightarrow> (h2, Inl e)
         | (h2, memo, Inr processed_messages) \<Rightarrow>
             (case (case processed_messages of Ref a \<Rightarrow> deref h2 a | _ \<Rightarrow> None) of
                Some (ListObj msgs) \<Rightarrow>
                  (case messages_loop fs h2 gemini_history msgs of
                     (h3, Some e) \<Rightarrow> (h3, Inl e)
                   | (h3, None) \<Rightarrow> (h3, Inr (Ref gemini_history)))
              | _ \<Rightarrow> (h2, Inl (Exc TypeError ''messages is not a list''))))"

text \<open>
  A caller's store: the conversation at address 5 holds a tool message (address 0), an
  assistant message (2) whose content list (1) has a text item (3), and a user message
  (4) with a plain string.
\<close>

definition sample_store :: "string store" where
  "sample_store =
     [DictObj [(''role'', Imm (AStr ''tool'')), (''content'', Imm (AStr ''42''))],
      ListObj [Ref 3, Imm (AStr ''/tmp/shots/missing.png'')],
      DictObj [(''role'', Imm (AStr ''assistant'')), (''content'', Ref 1)],
      DictObj [(''type'', Imm (AStr ''text'')), (''text'', Imm (AStr ''hello''))],
      DictObj [(''role'', Imm (AStr ''user'')), (''content'', Imm (AStr ''hi''))],
      ListObj [Ref 0, Ref 2, Ref 4]]"

subsection \<open>Vocabulary of the frame property\<close>

text \<open>The first \<open>n\<close> objects of the store are still what they were, and none was removed.\<close>

definition kept :: "nat \<Rightarrow> 'img store \<Rightarrow> 'img store \<Rightarrow> bool" where
  "kept n h h' \<longleftrightarrow> length h \<le> length h' \<and> take n h' = take n h"

text \<open>A reference that does not lead to one of the first \<open>n\<close> objects.\<close>

definition fresh_ref :: "nat \<Rightarrow> 'img ref \<Rightarrow> bool" where
  "fresh_ref n r = (case r of Ref b \<Rightarrow> n \<le> b | _ \<Rightarrow> True)"

fun refs_of :: "'img obj \<Rightarrow> 'img ref list" where
  "refs_of (ListObj rs) = rs"
| "refs_of (DictObj kvs) = map snd kvs"

text \<open>No object allocated from address \<open>n\<close> on refers to one of the first \<open>n\<close> objects.\<close>

definition separate :: "nat \<Rightarrow> 'img store \<Rightarrow> bool" where
  "separate n h \<longleftrightarrow>
     (\<forall>a. n \<le> a \<and> a < length h \<longrightarrow> (\<forall>r \<in> set (refs_of (h ! a)). fresh_ref n r))"

text \<open>Every copy recorded in the memo lies at address \<open>n\<close> or beyond.\<close>

definition memo_fresh :: "nat \<Rightarrow> memo \<Rightarrow> bool" where
  "memo_fresh n memo \<longleftrightarrow> (\<forall>y \<in> snd ` set memo. n \<le> y)"

subsection \<open>Reading values back from the store\<close>

text \<open>
  The value an object graph denotes, followed to the given depth: what the adapter on
  values takes as a message, and what the two adapters can be compared on.
\<close>

fun atom_value :: "atom \<Rightarrow> pyval" where
  "atom_value ANone = PNone"
| "atom_value (ABool v) = PBool v"
| "atom_value (AInt i) = PInt i"
| "atom_value (AFloat r) = PFloat r"
| "atom_value (AStr s) = PStr s"

fun ref_value :: "nat \<Rightarrow> 'img store \<Rightarrow> 'img ref \<Rightarrow> pyval" where
  "ref_value n h (Imm a) = atom_value a"
| "ref_value n h (Loaded img) = PNone"
| "ref_value 0 h (Ref a) = PNone"
| "ref_value (Suc n) h (Ref a) =
     (case deref h a of
        Some (ListObj rs) \<Rightarrow> PList (map (ref_value n h) rs)
      | Some (DictObj kvs) \<Rightarrow> PDict (map (\<lambda>kv. (fst kv, ref_value n h (snd kv))) kvs)
      | None \<Rightarrow> PNone)"

definition messages_at :: "nat \<Rightarrow> 'img store \<Rightarrow> addr \<Rightarrow> pydict list" where
  "messages_at n h a =
     (case ref_value n h (Ref a) of
        PList ms \<Rightarrow> concat (map (\<lambda>m. case m of PDict d \<Rightarrow> [d] | _ \<Rightarrow> []) ms)
      | _ \<Rightarrow> [])"

definition part_at :: "nat \<Rightarrow> 'img store \<Rightarrow> 'img ref \<Rightarrow> 'img part" where
  "part_at n h r = (case r of Loaded img \<Rightarrow> PartImage img | _ \<Rightarrow> PartValue (ref_value n h r))"

definition turn_at :: "nat \<Rightarrow> 'img store \<Rightarrow> 'img ref \<Rightarrow> 'img turn list" where
  "turn_at n h r =
     (case (case r of Ref t \<Rightarrow> deref h t | _ \<Rightarrow> None) of
        Some (DictObj d) \<Rightarrow>
          (case (case get_ref d ''parts'' of Ref p \<Rightarrow> deref h p | _ \<Rightarrow> None) of
             Some (ListObj ps) \<Rightarrow>
               [\<lparr>role = ref_value n h (get_ref d ''role''), parts = map (part_at n h) ps\<rparr>]
           | _ \<Rightarrow> [])
      | _ \<Rightarrow> [])"

definition history_at :: "nat \<Rightarrow> 'img store \<Rightarrow> 'img ref \<Rightarrow> 'img turn list" where
  "history_at n h r =
     (case (case r of Ref g \<Rightarrow> deref h g | _ \<Rightarrow> None) of
        Some (ListObj ts) \<Rightarrow> concat (map (turn_at n h) ts)
      | _ \<Rightarrow> [])"

section \<open>Properties of the action dispatcher\<close>

subsection \<open>Auxiliary facts\<close>




lemma fst_safe_computer_action:
  "fst (safe_computer_action b a t xy kw) =
     [Invoke \<lparr>action = a, text_arg = t, coordinate = xy, kwargs = kw\<rparr>]"
  by (simp add: safe_computer_action_def Let_def)

text \<open>
  Every entry point either hands over to \<open>safe_computer_action\<close> or never reaches
  the backend.
\<close>

lemma entry_point_cases:
  assumes "h \<in> set (entry_points py_str)"
  shows "(\<exists>a t xy kw. h b params = safe_computer_action b a t xy kw) \<or>
         (\<forall>c. Invoke c \<notin> set (fst (h b params)))"
proof -
  have move: "(\<exists>a t xy kw. handle_mouse_move b params = safe_computer_action b a t xy kw) \<or>
         (\<forall>c. Invoke c \<notin> set (fst (handle_mouse_move b params)))"
    by (auto simp: handle_mouse_move_def Let_def)
  have click: "(\<exists>a t xy kw. handle_mouse_click b params = safe_computer_action b a t xy kw) \<or>
         (\<forall>c. Invoke c \<notin> set (fst (handle_mouse_click b params)))"
    by (auto simp: handle_mouse_click_def Let_def split: pyval.splits option.splits)
  have drag: "(\<exists>a t xy kw. handle_mouse_drag b params = safe_computer_action b a t xy kw) \<or>
         (\<forall>c. Invoke c \<notin> set (fst (handle_mouse_drag b params)))"
    by (auto simp: handle_mouse_drag_def Let_def)
  have type: "(\<exists>a t xy kw. handle_keyboard_type b params = safe_computer_action b a t xy kw) \<or>
         (\<forall>c. Invoke c \<notin> set (fst (handle_keyboard_type b params)))"
    by (auto simp: handle_keyboard_type_def Let_def)
  have key: "(\<exists>a t xy kw. handle_keyboard_press_key b params = safe_computer_action b a t xy kw) \<or>
         (\<forall>c. Invoke c \<notin> set (fst (handle_keyboard_press_key b params)))"
    by (auto simp: handle_keyboard_press_key_def Let_def)
  have cursor: "\<exists>a t xy kw. handle_get_cursor_position b params = safe_computer_action b a t xy kw"
    by (auto simp: handle_get_cursor_position_def)
  have wait: "(\<exists>a t xy kw. handle_wait_seconds py_str b params = safe_computer_action b a t xy kw) \<or>
         (\<forall>c. Invoke c \<notin> set (fst (handle_wait_seconds py_str b params)))"
    by (auto simp: handle_wait_seconds_def Let_def split: sum.splits bool.splits)
  from assms consider "h = handle_mouse_move" | "h = handle_mouse_click" | "h = handle_mouse_drag"
    | "h = handle_keyboard_type" | "h = handle_keyboard_press_key"
    | "h = handle_get_cursor_position" | "h = handle_wait_seconds py_str"
    by (auto simp: entry_points_def)
  then show ?thesis
    using move click drag type key cursor wait by cases blast+
qed

subsection \<open>Click dispatch\<close>




subsection \<open>Missing required fields\<close>

text \<open>
  C2. When \<open>x\<close> or \<open>y\<close> is absent, \<open>handle_mouse_move\<close> and \<open>handle_mouse_drag\<close>
  return the error envelope that names the coordinates; when \<open>text_to_type\<close> is absent
  \<open>handle_keyboard_type\<close> returns the one naming it, and likewise
  \<open>handle_keyboard_press_key\<close> for \<open>key_to_press\<close>. In each case the trace of the call
  is empty: the backend is not invoked.
\<close>

theorem missing_field_error:
  "(map_of params ''x'' = None \<or> map_of params ''y'' = None \<longrightarrow>
      handle_mouse_move b params =
        ([], Inr [(''status'', PStr ''error''), (''message'', PStr ''Missing x or y coordinate.'')]) \<and>
      handle_mouse_drag b params =
        ([], Inr [(''status'', PStr ''error''),
                  (''message'', PStr ''Missing x or y coordinate for drag.'')])) \<and>
   (map_of params ''text_to_type'' = None \<longrightarrow>
      handle_keyboard_type b params =
        ([], Inr [(''status'', PStr ''error''), (''message'', PStr ''Missing text_to_type.'')])) \<and>
   (map_of params ''key_to_press'' = None \<longrightarrow>
      handle_keyboard_press_key b params =
        ([], Inr [(''status'', PStr ''error''), (''message'', PStr ''Missing key_to_press.'')]))"
  by (auto simp: handle_mouse_move_def handle_mouse_drag_def handle_keyboard_type_def
      handle_keyboard_press_key_def py_get_def error_envelope_def Let_def)

theorem missing_field_error_witness:
  "handle_mouse_move sample_backend [(''y'', PInt 40)] =
     ([], Inr [(''status'', PStr ''error''), (''message'', PStr ''Missing x or y coordinate.'')]) \<and>
   handle_mouse_drag sample_backend [(''y'', PInt 40)] =
     ([], Inr [(''status'', PStr ''error''),
               (''message'', PStr ''Missing x or y coordinate for drag.'')]) \<and>
   handle_keyboard_type sample_backend [(''y'', PInt 40)] =
     ([], Inr [(''status'', PStr ''error''), (''message'', PStr ''Missing text_to_type.'')]) \<and>
   handle_keyboard_press_key sample_backend [(''y'', PInt 40)] =
     ([], Inr [(''status'', PStr ''error''), (''message'', PStr ''Missing key_to_press.'')])"
  using missing_field_error [of "[(''y'', PInt 40)]" sample_backend] by simp

subsection \<open>The envelope of a backend invocation\<close>

text \<open>
  C3. \<open>safe_computer_action\<close> invokes the backend exactly once and always returns an
  envelope, never an exception: the backend's \<^verbatim>\<open>ToolError\<close> gives the error envelope
  with the error's own message; any other exception gives the error envelope whose
  message is the generic prefix followed by the failure text; a returned result gives the
  success envelope with the raw output and the image payload (\<^verbatim>\<open>None\<close> when the result
  has none). Every backend invocation an entry point makes is such a call, and the entry
  point returns its envelope unchanged.
\<close>

theorem backend_outcome_envelope:
  "(let c = \<lparr>action = a, text_arg = t, coordinate = xy, kwargs = kw\<rparr>;
        r = safe_computer_action b a t xy kw
    in fst r = [Invoke c] \<and>
       (\<forall>m. b c = RaisesToolError m \<longrightarrow>
          snd r = Inr [(''status'', PStr ''error''), (''message'', PStr m)]) \<and>
       (\<forall>m. b c = RaisesException m \<longrightarrow>
          snd r = Inr [(''status'', PStr ''error''),
                       (''message'', PStr (''Unexpected error in ComputerTool: '' @ m))]) \<and>
       (\<forall>res. b c = Returns res \<longrightarrow>
          snd r = Inr [(''status'', PStr ''success''), (''output'', result_output res),
                       (''base64_image'',
                        case result_base64_image res of None \<Rightarrow> PNone | Some img \<Rightarrow> img)]) \<and>
       (\<exists>env. snd r = Inr env)) \<and>
   (\<forall>h \<in> set (entry_points py_str). \<forall>params c.
       Invoke c \<in> set (fst (h b params)) \<longrightarrow>
       h b params = safe_computer_action b (action c) (text_arg c) (coordinate c) (kwargs c))"
proof (rule conjI)
  show "let c = \<lparr>action = a, text_arg = t, coordinate = xy, kwargs = kw\<rparr>;
        r = safe_computer_action b a t xy kw
    in fst r = [Invoke c] \<and>
       (\<forall>m. b c = RaisesToolError m \<longrightarrow>
          snd r = Inr [(''status'', PStr ''error''), (''message'', PStr m)]) \<and>
       (\<forall>m. b c = RaisesException m \<longrightarrow>
          snd r = Inr [(''status'', PStr ''error''),
                       (''message'', PStr (''Unexpected error in ComputerTool: '' @ m))]) \<and>
       (\<forall>res. b c = Returns res \<longrightarrow>
          snd r = Inr [(''status'', PStr ''success''), (''output'', result_output res),
                       (''base64_image'',
                        case result_base64_image res of None \<Rightarrow> PNone | Some img \<Rightarrow> img)]) \<and>
       (\<exists>env. snd r = Inr env)"
    by (simp add: safe_computer_action_def Let_def success_envelope_def error_envelope_def)
next
  show "\<forall>h \<in> set (entry_points py_str). \<forall>params c.
       Invoke c \<in> set (fst (h b params)) \<longrightarrow>
       h b params = safe_computer_action b (action c) (text_arg c) (coordinate c) (kwargs c)"
  proof (intro ballI allI impI)
    fix h params c
    assume h: "h \<in> set (entry_points py_str)" and inv: "Invoke c \<in> set (fst (h b params))"
    from entry_point_cases [OF h, of b params] inv
    obtain a' t' xy' kw' where eq: "h b params = safe_computer_action b a' t' xy' kw'"
      by blast
    with inv have "c = \<lparr>action = a', text_arg = t', coordinate = xy', kwargs = kw'\<rparr>"
      by (simp add: fst_safe_computer_action)
    with eq show "h b params =
        safe_computer_action b (action c) (text_arg c) (coordinate c) (kwargs c)"
      by simp
  qed
qed

theorem backend_outcome_envelope_witness:
  "snd (safe_computer_action sample_backend ''type'' (PStr ''hi'') None []) =
     Inr [(''status'', PStr ''error''), (''message'', PStr ''keyboard unavailable'')] \<and>
   snd (safe_computer_action sample_backend ''key'' (PStr ''Return'') None []) =
     Inr [(''status'', PStr ''error''),
          (''message'', PStr ''Unexpected error in ComputerTool: device lost'')] \<and>
   snd (safe_computer_action sample_backend ''mouse_move'' PNone (Some (PInt 3, PInt 4)) []) =
     Inr [(''status'', PStr ''success''), (''output'', PStr ''done mouse_move''),
          (''base64_image'', PStr ''aW1hZ2U='')] \<and>
   snd (safe_computer_action sample_backend ''cursor_position'' PNone None []) =
     Inr [(''status'', PStr ''success''), (''output'', PStr ''done cursor_position''),
          (''base64_image'', PNone)] \<and>
   handle_keyboard_type sample_backend [(''text_to_type'', PStr ''hi'')] =
     safe_computer_action sample_backend ''type'' (PStr ''hi'') None []"
proof -
  have one: "snd (safe_computer_action sample_backend ''type'' (PStr ''hi'') None []) =
     Inr [(''status'', PStr ''error''), (''message'', PStr ''keyboard unavailable'')]"
    using backend_outcome_envelope [of "''type''" "PStr ''hi''" None "[]" sample_backend sample_str]
    by (simp add: sample_backend_def Let_def)
  have two: "snd (safe_computer_action sample_backend ''key'' (PStr ''Return'') None []) =
     Inr [(''status'', PStr ''error''),
          (''message'', PStr ''Unexpected error in ComputerTool: device lost'')]"
    using backend_outcome_envelope [of "''key''" "PStr ''Return''" None "[]" sample_backend sample_str]
    by (simp add: sample_backend_def Let_def)
  have three: "snd (safe_computer_action sample_backend ''mouse_move'' PNone
                     (Some (PInt 3, PInt 4)) []) =
     Inr [(''status'', PStr ''success''), (''output'', PStr ''done mouse_move''),
          (''base64_image'', PStr ''aW1hZ2U='')]"
    using backend_outcome_envelope
      [of "''mouse_move''" PNone "Some (PInt 3, PInt 4)" "[]" sample_backend sample_str]
    by (simp add: sample_backend_def Let_def)
  have four: "snd (safe_computer_action sample_backend ''cursor_position'' PNone None []) =
     Inr [(''status'', PStr ''success''), (''output'', PStr ''done cursor_position''),
          (''base64_image'', PNone)]"
    using backend_outcome_envelope [of "''cursor_position''" PNone None "[]" sample_backend sample_str]
    by (simp add: sample_backend_def Let_def)
  have member: "handle_keyboard_type \<in> set (entry_points sample_str)"
    by (simp add: entry_points_def)
  have invoked: "Invoke \<lparr>action = ''type'', text_arg = PStr ''hi'', coordinate = None, kwargs = []\<rparr>
       \<in> set (fst (handle_keyboard_type sample_backend [(''text_to_type'', PStr ''hi'')]))"
    by (simp add: handle_keyboard_type_def py_get_def fst_safe_computer_action)
  have five: "handle_keyboard_type sample_backend [(''text_to_type'', PStr ''hi'')] =
     safe_computer_action sample_backend ''type'' (PStr ''hi'') None []"
    using backend_outcome_envelope [of "''type''" "PStr ''hi''" None "[]" sample_backend sample_str]
      member invoked
    by fastforce
  from one two three four five show ?thesis by blast
qed

subsection \<open>Waiting\<close>



subsection \<open>Values of another type\<close>

text \<open>
  C9, as amended. No entry point checks the type of a required field. A field that is
  present with any value other than \<^verbatim>\<open>None\<close>, of whatever type, is handed to the
  backend unchanged: the coordinates of \<open>handle_mouse_move\<close> and \<open>handle_mouse_drag\<close>,
  the text of \<open>handle_keyboard_type\<close> and of \<open>handle_keyboard_press_key\<close>; the envelope
  is the one of that invocation.
\<close>

theorem present_field_forwarded:
  "(\<forall>x y. map_of params ''x'' = Some x \<and> map_of params ''y'' = Some y \<and>
          x \<noteq> PNone \<and> y \<noteq> PNone \<longrightarrow>
      handle_mouse_move b params =
        ([Invoke \<lparr>action = ''mouse_move'', text_arg = PNone, coordinate = Some (x, y),
                  kwargs = []\<rparr>],
         snd (safe_computer_action b ''mouse_move'' PNone (Some (x, y)) [])) \<and>
      handle_mouse_drag b params =
        ([Invoke \<lparr>action = ''left_click_drag'', text_arg = PNone, coordinate = Some (x, y),
                  kwargs = []\<rparr>],
         snd (safe_computer_action b ''left_click_drag'' PNone (Some (x, y)) []))) \<and>
   (\<forall>t. map_of params ''text_to_type'' = Some t \<and> t \<noteq> PNone \<longrightarrow>
      handle_keyboard_type b params =
        ([Invoke \<lparr>action = ''type'', text_arg = t, coordinate = None, kwargs = []\<rparr>],
         snd (safe_computer_action b ''type'' t None []))) \<and>
   (\<forall>k. map_of params ''key_to_press'' = Some k \<and> k \<noteq> PNone \<longrightarrow>
      handle_keyboard_press_key b params =
        ([Invoke \<lparr>action = ''key'', text_arg = k, coordinate = None, kwargs = []\<rparr>],
         snd (safe_computer_action b ''key'' k None [])))"
  by (auto simp: handle_mouse_move_def handle_mouse_drag_def handle_keyboard_type_def
      handle_keyboard_press_key_def py_get_def Let_def safe_computer_action_def)

theorem present_field_forwarded_witness:
  "handle_mouse_move sample_backend [(''x'', PStr ''abc''), (''y'', PList [])] =
     ([Invoke \<lparr>action = ''mouse_move'', text_arg = PNone,
               coordinate = Some (PStr ''abc'', PList []), kwargs = []\<rparr>],
      snd (safe_computer_action sample_backend ''mouse_move'' PNone
             (Some (PStr ''abc'', PList [])) [])) \<and>
   handle_keyboard_type sample_backend [(''text_to_type'', PInt 7)] =
     ([Invoke \<lparr>action = ''type'', text_arg = PInt 7, coordinate = None, kwargs = []\<rparr>],
      snd (safe_computer_action sample_backend ''type'' (PInt 7) None []))"
proof -
  have one: "handle_mouse_move sample_backend [(''x'', PStr ''abc''), (''y'', PList [])] =
     ([Invoke \<lparr>action = ''mouse_move'', text_arg = PNone,
               coordinate = Some (PStr ''abc'', PList []), kwargs = []\<rparr>],
      snd (safe_computer_action sample_backend ''mouse_move'' PNone
             (Some (PStr ''abc'', PList [])) []))"
    using present_field_forwarded [of "[(''x'', PStr ''abc''), (''y'', PList [])]" sample_backend]
    by simp
  have two: "handle_keyboard_type sample_backend [(''text_to_type'', PInt 7)] =
     ([Invoke \<lparr>action = ''type'', text_arg = PInt 7, coordinate = None, kwargs = []\<rparr>],
      snd (safe_computer_action sample_backend ''type'' (PInt 7) None []))"
    using present_field_forwarded [of "[(''text_to_type'', PInt 7)]" sample_backend]
    by simp
  from one two show ?thesis by blast
qed

text \<open>
  The claim as stated expects an error envelope and no invocation when \<open>x\<close> is not an
  integer. With \<open>x\<close> the string \<open>abc\<close> the backend is invoked with that string as
  coordinate, and its success is returned.
\<close>

theorem handle_mouse_move_string_counterexample:
  "handle_mouse_move sample_backend [(''x'', PStr ''abc''), (''y'', PInt 1)] =
     ([Invoke \<lparr>action = ''mouse_move'', text_arg = PNone,
               coordinate = Some (PStr ''abc'', PInt 1), kwargs = []\<rparr>],
      Inr [(''status'', PStr ''success''), (''output'', PStr ''done mouse_move''),
           (''base64_image'', PStr ''aW1hZ2U='')])"
  by (simp add: handle_mouse_move_def py_get_def safe_computer_action_def sample_backend_def
      success_envelope_def)

section \<open>Properties of the message-history adapter\<close>

subsection \<open>Auxiliary facts\<close>

lemma process_item_unrecognised: "\<not> recognised_item item \<Longrightarrow> process_item fs item = Inr []"
  by (cases item) (auto simp: recognised_item_def py_get_def split: option.splits)

lemma process_items_filter:
  "process_items fs (filter recognised_item items) acc = process_items fs items acc"
  by (induction items arbitrary: acc) (auto simp: process_item_unrecognised split: sum.splits)



lemma adapt_message_empty:
  "process_content fs (py_get msg ''content'' PNone) = Inr [] \<Longrightarrow> adapt_message fs msg = Inr None"
  by (simp add: adapt_message_def adapt_with_role_def Let_def)









lemma basename_no_slash: "CHR ''/'' \<notin> set (basename p)"
  unfolding basename_def set_rev by (auto dest: set_takeWhileD)

lemma basename_suffix: "suffix (basename p) p"
proof -
  have "prefix (takeWhile (\<lambda>c. c \<noteq> CHR ''/'') (rev p)) (rev p)"
    by (metis prefixI takeWhile_dropWhile_id)
  then show ?thesis
    unfolding basename_def by (simp add: suffix_to_prefix)
qed

subsection \<open>Roles and dropped messages\<close>



subsection \<open>Content that no branch handles\<close>

text \<open>
  C10. In a content list, an item that is neither a string nor a dict whose \<open>type\<close> is
  \<open>text\<close> adds no part and raises nothing, so the part list is the same as if such
  items were removed from the list beforehand. A content that is neither a string nor a
  list yields the empty part list, and its message is dropped.
\<close>

theorem unrecognised_content_skipped:
  "(\<not> recognised_item item \<longrightarrow> process_item fs item = Inr []) \<and>
   process_items fs (filter recognised_item items) acc = process_items fs items acc \<and>
   ((\<forall>s. content \<noteq> PStr s) \<and> (\<forall>xs. content \<noteq> PList xs) \<longrightarrow>
      process_content fs content = Inr [] \<and>
      (py_get msg ''content'' PNone = content \<longrightarrow> adapt_message fs msg = Inr None))"
proof (intro conjI impI)
  show "process_item fs item = Inr []" if "\<not> recognised_item item"
    using that by (rule process_item_unrecognised)
  show "process_items fs (filter recognised_item items) acc = process_items fs items acc"
    by (rule process_items_filter)
  assume other: "(\<forall>s. content \<noteq> PStr s) \<and> (\<forall>xs. content \<noteq> PList xs)"
  then show empty: "process_content fs content = Inr []"
    by (cases content) (simp_all add: process_content_def)
  show "adapt_message fs msg = Inr None" if "py_get msg ''content'' PNone = content"
    using that empty by (simp add: adapt_message_empty)
qed

theorem unrecognised_content_skipped_witness:
  "process_item sample_files (PInt 7) = Inr [] \<and>
   process_item sample_files (PDict [(''type'', PStr ''image_url''), (''text'', PStr ''x'')]) = Inr [] \<and>
   process_items sample_files [PStr ''a'', PStr ''b''] [] =
     process_items sample_files [PInt 7, PStr ''a'', PNone, PDict [(''type'', PStr ''audio'')], PStr ''b''] [] \<and>
   process_content sample_files (PDict [(''type'', PStr ''text''), (''text'', PStr ''x'')]) = Inr [] \<and>
   adapt_message sample_files [(''role'', PStr ''user''), (''content'', PInt 3)] = Inr None"
proof -
  have one: "process_item sample_files (PInt 7) = Inr []"
    using unrecognised_content_skipped [of "PInt 7" sample_files "[]" "[]" PNone "[]"]
    by (simp add: recognised_item_def)
  have two: "process_item sample_files
      (PDict [(''type'', PStr ''image_url''), (''text'', PStr ''x'')]) = Inr []"
    using unrecognised_content_skipped
      [of "PDict [(''type'', PStr ''image_url''), (''text'', PStr ''x'')]" sample_files "[]" "[]"
          PNone "[]"]
    by (simp add: recognised_item_def)
  have three: "process_items sample_files [PStr ''a'', PStr ''b''] [] =
     process_items sample_files
       [PInt 7, PStr ''a'', PNone, PDict [(''type'', PStr ''audio'')], PStr ''b''] []"
    using unrecognised_content_skipped
      [of PNone sample_files
          "[PInt 7, PStr ''a'', PNone, PDict [(''type'', PStr ''audio'')], PStr ''b'']" "[]"
          PNone "[]", THEN conjunct2, THEN conjunct1]
    by (simp add: recognised_item_def)
  have four: "process_content sample_files
      (PDict [(''type'', PStr ''text''), (''text'', PStr ''x'')]) = Inr []"
    using unrecognised_content_skipped
      [of PNone sample_files "[]" "[]" "PDict [(''type'', PStr ''text''), (''text'', PStr ''x'')]" "[]"]
    by simp
  have five: "adapt_message sample_files [(''role'', PStr ''user''), (''content'', PInt 3)] = Inr None"
    using unrecognised_content_skipped
      [of PNone sample_files "[]" "[]" "PInt 3" "[(''role'', PStr ''user''), (''content'', PInt 3)]"]
    by (simp add: py_get_def)
  from one two three four five show ?thesis by blast
qed

subsection \<open>Images that cannot be loaded\<close>

text \<open>
  C7, as amended. For a string item recognised as an image reference: when the path does
  not exist (or the file vanishes before it is opened) the item becomes the text part
  \<open>[Image not found: B]\<close>; when the file cannot be identified as an image it becomes
  \<open>[Unidentifiable image: B]\<close>; on any other failure of the load it becomes
  \<open>[Error loading image: B]\<close>, which does not depend on the failure; a loaded image
  becomes an image part. \<open>B\<close> is the base name of the path: it is the end of the path
  and contains no slash. In every case exactly one part is appended and nothing is
  raised.
\<close>

theorem image_load_placeholders:
  assumes "is_image_path fs item"
  shows "(\<not> path_exists fs item \<longrightarrow>
            process_item fs (PStr item) =
              Inr [PartValue (PStr (''[Image not found: '' @ basename item @ '']''))]) \<and>
         (path_exists fs item \<longrightarrow>
            (\<forall>m. image_open fs item = OpenRaises (Exc FileNotFoundError m) \<longrightarrow>
               process_item fs (PStr item) =
                 Inr [PartValue (PStr (''[Image not found: '' @ basename item @ '']''))]) \<and>
            (\<forall>m. image_open fs item = OpenRaises (Exc UnidentifiedImageError m) \<longrightarrow>
               process_item fs (PStr item) =
                 Inr [PartValue (PStr (''[Unidentifiable image: '' @ basename item @ '']''))]) \<and>
            (\<forall>cls m. image_open fs item = OpenRaises (Exc cls m) \<and>
                 cls \<noteq> FileNotFoundError \<and> cls \<noteq> UnidentifiedImageError \<longrightarrow>
               process_item fs (PStr item) =
                 Inr [PartValue (PStr (''[Error loading image: '' @ basename item @ '']''))]) \<and>
            (\<forall>img. image_open fs item = Opened img \<longrightarrow>
               process_item fs (PStr item) = Inr [PartImage img])) \<and>
         CHR ''/'' \<notin> set (basename item) \<and> suffix (basename item) item \<and>
         (\<exists>p. process_item fs (PStr item) = Inr [p])"
proof (intro conjI)
  show "\<not> path_exists fs item \<longrightarrow>
            process_item fs (PStr item) =
              Inr [PartValue (PStr (''[Image not found: '' @ basename item @ '']''))]"
    using assms by (simp add: load_image_def)
  show "path_exists fs item \<longrightarrow>
            (\<forall>m. image_open fs item = OpenRaises (Exc FileNotFoundError m) \<longrightarrow>
               process_item fs (PStr item) =
                 Inr [PartValue (PStr (''[Image not found: '' @ basename item @ '']''))]) \<and>
            (\<forall>m. image_open fs item = OpenRaises (Exc UnidentifiedImageError m) \<longrightarrow>
               process_item fs (PStr item) =
                 Inr [PartValue (PStr (''[Unidentifiable image: '' @ basename item @ '']''))]) \<and>
            (\<forall>cls m. image_open fs item = OpenRaises (Exc cls m) \<and>
                 cls \<noteq> FileNotFoundError \<and> cls \<noteq> UnidentifiedImageError \<longrightarrow>
               process_item fs (PStr item) =
                 Inr [PartValue (PStr (''[Error loading image: '' @ basename item @ '']''))]) \<and>
            (\<forall>img. image_open fs item = Opened img \<longrightarrow>
               process_item fs (PStr item) = Inr [PartImage img])"
    using assms by (simp add: load_image_def)
  show "CHR ''/'' \<notin> set (basename item)"
    by (rule basename_no_slash)
  show "suffix (basename item) item"
    by (rule basename_suffix)
  show "\<exists>p. process_item fs (PStr item) = Inr [p]"
    using assms by simp
qed

theorem image_load_placeholders_witness:
  "process_item sample_files (PStr ''/tmp/shots/missing.png'') =
     Inr [PartValue (PStr ''[Image not found: missing.png]'')] \<and>
   process_item sample_files (PStr ''/tmp/shots/gone.png'') =
     Inr [PartValue (PStr ''[Image not found: gone.png]'')] \<and>
   process_item sample_files (PStr ''/tmp/shots/broken.png'') =
     Inr [PartValue (PStr ''[Unidentifiable image: broken.png]'')] \<and>
   process_item sample_files (PStr ''/tmp/shots/locked.png'') =
     Inr [PartValue (PStr ''[Error loading image: locked.png]'')] \<and>
   process_item sample_files (PStr ''/tmp/shots/ok.png'') = Inr [PartImage ''pixels of ok.png'']"
proof -
  have image: "is_image_path sample_files ''/tmp/shots/missing.png''"
    "is_image_path sample_files ''/tmp/shots/gone.png''"
    "is_image_path sample_files ''/tmp/shots/broken.png''"
    "is_image_path sample_files ''/tmp/shots/locked.png''"
    "is_image_path sample_files ''/tmp/shots/ok.png''"
    by (simp_all add: sample_files_def)
  have base: "basename ''/tmp/shots/missing.png'' = ''missing.png''"
    "basename ''/tmp/shots/gone.png'' = ''gone.png''"
    "basename ''/tmp/shots/broken.png'' = ''broken.png''"
    "basename ''/tmp/shots/locked.png'' = ''locked.png''"
    by (simp_all add: basename_def)
  have one: "process_item sample_files (PStr ''/tmp/shots/missing.png'') =
     Inr [PartValue (PStr ''[Image not found: missing.png]'')]"
    using image_load_placeholders [OF image(1)] by (simp add: base) (simp add: sample_files_def)
  have two: "process_item sample_files (PStr ''/tmp/shots/gone.png'') =
     Inr [PartValue (PStr ''[Image not found: gone.png]'')]"
    using image_load_placeholders [OF image(2)] by (simp add: base) (simp add: sample_files_def)
  have three: "process_item sample_files (PStr ''/tmp/shots/broken.png'') =
     Inr [PartValue (PStr ''[Unidentifiable image: broken.png]'')]"
    using image_load_placeholders [OF image(3)] by (simp add: base) (simp add: sample_files_def)
  have four: "process_item sample_files (PStr ''/tmp/shots/locked.png'') =
     Inr [PartValue (PStr ''[Error loading image: locked.png]'')]"
    using image_load_placeholders [OF image(4)] by (simp add: base) (simp add: sample_files_def)
  have five: "process_item sample_files (PStr ''/tmp/shots/ok.png'') =
     Inr [PartImage ''pixels of ok.png'']"
    using image_load_placeholders [OF image(5)] by (simp add: base) (simp add: sample_files_def)
  from one two three four five show ?thesis by blast
qed

text \<open>
  The claim as stated has the placeholder of any other load failure include the failure
  reason. A file that exists and cannot be opened for lack of permission gives a
  placeholder with neither the text nor the type of that failure in it.
\<close>

theorem image_load_reason_counterexample:
  "is_image_path sample_files ''/tmp/shots/locked.png'' \<and>
   path_exists sample_files ''/tmp/shots/locked.png'' \<and>
   image_open sample_files ''/tmp/shots/locked.png'' =
     OpenRaises (Exc (OtherException ''PermissionError'') ''[Errno 13] Permission denied'') \<and>
   process_item sample_files (PStr ''/tmp/shots/locked.png'') =
     Inr [PartValue (PStr ''[Error loading image: locked.png]'')] \<and>
   \<not> sublist ''[Errno 13] Permission denied'' ''[Error loading image: locked.png]'' \<and>
   \<not> sublist ''PermissionError'' ''[Error loading image: locked.png]''"
proof -
  have "is_image_path sample_files ''/tmp/shots/locked.png''"
    "path_exists sample_files ''/tmp/shots/locked.png''"
    "image_open sample_files ''/tmp/shots/locked.png'' =
       OpenRaises (Exc (OtherException ''PermissionError'') ''[Errno 13] Permission denied'')"
    by (simp_all add: sample_files_def)
  moreover have "process_item sample_files (PStr ''/tmp/shots/locked.png'') =
     Inr [PartValue (PStr ''[Error loading image: locked.png]'')]"
    by (simp add: sample_files_def load_image_def basename_def)
  moreover have "\<not> sublist ''[Errno 13] Permission denied'' ''[Error loading image: locked.png]''"
    by code_simp
  moreover have "\<not> sublist ''PermissionError'' ''[Error loading image: locked.png]''"
    by code_simp
  ultimately show ?thesis by blast
qed

section \<open>Properties of the generation call\<close>

text \<open>When the body ends in an exception, the token counts have not been assigned.\<close>

lemma gemini_try_failure:
  "gemini_try api fs messages system model_name api_key max_tokens temperature st = (st', Some e)
   \<Longrightarrow> token_info st' = token_info st"
  by (auto simp: gemini_try_def Let_def split: option.splits sum.splits exception.splits if_splits)

text \<open>
  C6. \<open>run_gemini_interleaved\<close> always returns a pair of text and token counts. When
  the body of its \<^verbatim>\<open>try\<close> ends in an exception, the counts are all zero and the text
  describes the failure: the missing dependency for an \<^verbatim>\<open>ImportError\<close>, the attribute
  mismatch for an \<^verbatim>\<open>AttributeError\<close>, the type error for a \<^verbatim>\<open>TypeError\<close>, each with
  the exception's message, and the exception's type name and message for any other.
\<close>

theorem run_gemini_interleaved_failures:
  "(let body = gemini_try api fs messages system model_name api_key max_tokens temperature
                 \<lparr>response_text = [],
                  token_info = [(''input_tokens'', PInt 0), (''output_tokens'', PInt 0),
                                (''total_tokens'', PInt 0)]\<rparr>;
        r = run_gemini_interleaved api fs messages system model_name api_key max_tokens temperature
    in (\<forall>e. snd body = Some e \<longrightarrow>
          snd r = [(''input_tokens'', PInt 0), (''output_tokens'', PInt 0),
                   (''total_tokens'', PInt 0)]) \<and>
       (\<forall>m. snd body = Some (Exc ImportError m) \<longrightarrow>
          fst r = ''ImportError: Please install google-generativeai. '' @ m) \<and>
       (\<forall>m. snd body = Some (Exc AttributeError m) \<longrightarrow>
          fst r = ''Error setting up Gemini call (AttributeError): '' @ m @ ''.'') \<and>
       (\<forall>m. snd body = Some (Exc TypeError m) \<longrightarrow>
          fst r = ''Type error during Gemini call (check arguments/version): '' @ m @ ''.'') \<and>
       (\<forall>cls m. snd body = Some (Exc cls m) \<and> cls \<noteq> ImportError \<and> cls \<noteq> AttributeError \<and>
                cls \<noteq> TypeError \<longrightarrow>
          fst r = ''Error interacting with Gemini API: '' @ class_name cls @ '' - '' @ m))"
proof -
  define st0 where "st0 = \<lparr>response_text = [], token_info = token_dict 0 0 0\<rparr>"
  obtain st oe where body:
    "gemini_try api fs messages system model_name api_key max_tokens temperature st0 = (st, oe)"
    by (cases "gemini_try api fs messages system model_name api_key max_tokens temperature st0")
  have same: "token_info st = token_info st0" if "oe = Some e" for e
    using body that gemini_try_failure by blast
  have zero: "token_info st0 = [(''input_tokens'', PInt 0), (''output_tokens'', PInt 0),
      (''total_tokens'', PInt 0)]"
    by (simp add: st0_def token_dict_def)
  have r: "run_gemini_interleaved api fs messages system model_name api_key max_tokens temperature =
      (case oe of
         None \<Rightarrow> (response_text st, token_info st)
       | Some (Exc cls m) \<Rightarrow>
          (if cls = ImportError
           then ''ImportError: Please install google-generativeai. '' @ m
           else if cls = AttributeError
           then ''Error setting up Gemini call (AttributeError): '' @ m @ ''.''
           else if cls = TypeError
           then ''Type error during Gemini call (check arguments/version): '' @ m @ ''.''
           else ''Error interacting with Gemini API: '' @ class_name cls @ '' - '' @ m,
           token_info st))"
    using body by (simp add: run_gemini_interleaved_def st0_def Let_def)
  have st0: "\<lparr>response_text = [],
       token_info = [(''input_tokens'', PInt 0), (''output_tokens'', PInt 0),
                     (''total_tokens'', PInt 0)]\<rparr> = st0"
    by (simp add: st0_def token_dict_def)
  show ?thesis
    unfolding Let_def st0 body r
    using same zero by (auto split: exception.splits)
qed

theorem run_gemini_interleaved_failures_witness:
  "run_gemini_interleaved sample_genai sample_files [] ''be brief'' ''gemini-pro'' [] 100 0 =
     (''ImportError: Please install google-generativeai. No module named google'',
      [(''input_tokens'', PInt 0), (''output_tokens'', PInt 0), (''total_tokens'', PInt 0)]) \<and>
   run_gemini_interleaved sample_genai sample_files [] ''be brief'' [] ''key'' 100 0 =
     (''Type error during Gemini call (check arguments/version): model_name must be a string.'',
      [(''input_tokens'', PInt 0), (''output_tokens'', PInt 0), (''total_tokens'', PInt 0)]) \<and>
   run_gemini_interleaved sample_genai sample_files
       [[(''role'', PStr ''user''), (''content'', PList [PDict [(''type'', PStr ''text'')]])]]
       ''be brief'' ''gemini-pro'' ''key'' 100 0 =
     (''Error interacting with Gemini API: KeyError - '' @ quoted ''text'',
      [(''input_tokens'', PInt 0), (''output_tokens'', PInt 0), (''total_tokens'', PInt 0)]) \<and>
   run_gemini_interleaved sample_genai sample_files [] ''be brief'' ''gemini-pro'' ''key'' 100 0 =
     (''Error interacting with Gemini API: ValueError - contents must not be empty'',
      [(''input_tokens'', PInt 0), (''output_tokens'', PInt 0), (''total_tokens'', PInt 0)]) \<and>
   run_gemini_interleaved sample_genai sample_files
       [[(''role'', PStr ''user''), (''content'', PStr ''hi'')]]
       ''be brief'' ''no-usage'' ''key'' 100 0 =
     (''Error interacting with Gemini API: ValueError - usage unavailable'',
      [(''input_tokens'', PInt 0), (''output_tokens'', PInt 0), (''total_tokens'', PInt 0)])"
proof -
  have one: "run_gemini_interleaved sample_genai sample_files [] ''be brief'' ''gemini-pro'' [] 100 0 =
     (''ImportError: Please install google-generativeai. No module named google'',
      [(''input_tokens'', PInt 0), (''output_tokens'', PInt 0), (''total_tokens'', PInt 0)])"
    using run_gemini_interleaved_failures
      [of sample_genai sample_files "[]" "''be brief''" "''gemini-pro''" "[]" 100 0]
    by (simp add: Let_def gemini_try_def sample_genai_def prod_eq_iff)
  have two: "run_gemini_interleaved sample_genai sample_files [] ''be brief'' [] ''key'' 100 0 =
     (''Type error during Gemini call (check arguments/version): model_name must be a string.'',
      [(''input_tokens'', PInt 0), (''output_tokens'', PInt 0), (''total_tokens'', PInt 0)])"
    using run_gemini_interleaved_failures
      [of sample_genai sample_files "[]" "''be brief''" "[]" "''key''" 100 0]
    by (simp add: Let_def gemini_try_def sample_genai_def prod_eq_iff)
  have three: "run_gemini_interleaved sample_genai sample_files
       [[(''role'', PStr ''user''), (''content'', PList [PDict [(''type'', PStr ''text'')]])]]
       ''be brief'' ''gemini-pro'' ''key'' 100 0 =
     (''Error interacting with Gemini API: KeyError - '' @ quoted ''text'',
      [(''input_tokens'', PInt 0), (''output_tokens'', PInt 0), (''total_tokens'', PInt 0)])"
    using run_gemini_interleaved_failures
      [of sample_genai sample_files
          "[[(''role'', PStr ''user''), (''content'', PList [PDict [(''type'', PStr ''text'')]])]]"
          "''be brief''" "''gemini-pro''" "''key''" 100 0]
    by (simp add: Let_def gemini_try_def sample_genai_def prod_eq_iff adapt_message_def
        adapt_with_role_def process_content_def py_get_def)
  have four: "run_gemini_interleaved sample_genai sample_files [] ''be brief'' ''gemini-pro''
       ''key'' 100 0 =
     (''Error interacting with Gemini API: ValueError - contents must not be empty'',
      [(''input_tokens'', PInt 0), (''output_tokens'', PInt 0), (''total_tokens'', PInt 0)])"
    using run_gemini_interleaved_failures
      [of sample_genai sample_files "[]" "''be brief''" "''gemini-pro''" "''key''" 100 0]
    by (simp add: Let_def gemini_try_def sample_genai_def prod_eq_iff)
  have five: "run_gemini_interleaved sample_genai sample_files
       [[(''role'', PStr ''user''), (''content'', PStr ''hi'')]]
       ''be brief'' ''no-usage'' ''key'' 100 0 =
     (''Error interacting with Gemini API: ValueError - usage unavailable'',
      [(''input_tokens'', PInt 0), (''output_tokens'', PInt 0), (''total_tokens'', PInt 0)])"
    using run_gemini_interleaved_failures
      [of sample_genai sample_files "[[(''role'', PStr ''user''), (''content'', PStr ''hi'')]]"
          "''be brief''" "''no-usage''" "''key''" 100 0]
    by (simp add: Let_def gemini_try_def sample_genai_def prod_eq_iff adapt_message_def
        adapt_with_role_def process_content_def py_get_def)
  from one two three four five show ?thesis by blast
qed

section \<open>Properties of the adapter on the object store\<close>

subsection \<open>What is kept\<close>

lemma kept_refl: "kept n h h"
  by (simp add: kept_def)

lemma kept_trans: "kept n h h1 \<Longrightarrow> kept n h1 h2 \<Longrightarrow> kept n h h2"
  by (simp add: kept_def)

lemma kept_alloc: "n \<le> length h \<Longrightarrow> kept n h (h @ [ob])"
  by (simp add: kept_def)

lemma kept_list_append: "n \<le> y \<Longrightarrow> kept n h (list_append h y r)"
  by (simp add: kept_def list_append_def split: option.splits obj.splits)

lemma kept_dict_set: "n \<le> y \<Longrightarrow> kept n h (dict_set h y k r)"
  by (simp add: kept_def dict_set_def split: option.splits obj.splits)

lemma kept_length: "kept n h h' \<Longrightarrow> length h \<le> length h'"
  by (simp add: kept_def)

lemma kept_nth: "kept n h h' \<Longrightarrow> a < n \<Longrightarrow> a < length h \<Longrightarrow> h' ! a = h ! a"
  by (metis kept_def nth_take)

lemma deepcopy_kept:
  "n \<le> length h \<Longrightarrow> kept n h (fst (deepcopy depth h memo r))"
  "n \<le> length h \<Longrightarrow> n \<le> y \<Longrightarrow> kept n h (fst (deepcopy_list depth h memo y rs))"
  "n \<le> length h \<Longrightarrow> n \<le> y \<Longrightarrow> kept n h (fst (deepcopy_dict depth h memo y kvs))"
proof (induction depth h memo r and depth h memo y rs and depth h memo y kvs
       rule: deepcopy_deepcopy_list_deepcopy_dict.induct)
  case (1 depth h memo a)
  then show ?case by (simp add: kept_refl)
next
  case (2 depth h memo img)
  then show ?case by (simp add: kept_refl)
next
  case (3 h memo x)
  then show ?case by (simp add: kept_refl split: option.splits)
next
  case (4 depth h memo x)
  show ?case
  proof (cases "map_of memo x")
    case (Some y)
    then show ?thesis by (simp add: kept_refl)
  next
    case None
    note memo = this
    show ?thesis
    proof (cases "deref h x")
      case None
      with memo show ?thesis by (simp add: kept_refl)
    next
      case (Some ob)
      show ?thesis
      proof (cases ob)
        case (ListObj rs)
        from "4.prems" have "n \<le> length (h @ [ListObj []])" by simp
        from "4.IH"(1) [OF memo Some ListObj refl this] "4.prems"
        have "kept n (h @ [ListObj []])
                (fst (deepcopy_list depth (h @ [ListObj []]) ((x, length h) # memo) (length h) rs))"
          by simp
        with kept_alloc [OF "4.prems", of "ListObj []"]
        have "kept n h
                (fst (deepcopy_list depth (h @ [ListObj []]) ((x, length h) # memo) (length h) rs))"
          by (rule kept_trans)
        with memo Some ListObj show ?thesis
          by (auto simp: Let_def split: prod.splits option.splits)
      next
        case (DictObj kvs)
        from "4.prems" have "n \<le> length (h @ [DictObj []])" by simp
        from "4.IH"(2) [OF memo Some DictObj refl this] "4.prems"
        have "kept n (h @ [DictObj []])
                (fst (deepcopy_dict depth (h @ [DictObj []]) ((x, length h) # memo) (length h) kvs))"
          by simp
        with kept_alloc [OF "4.prems", of "DictObj []"]
        have "kept n h
                (fst (deepcopy_dict depth (h @ [DictObj []]) ((x, length h) # memo) (length h) kvs))"
          by (rule kept_trans)
        with memo Some DictObj show ?thesis
          by (auto simp: Let_def split: prod.splits option.splits)
      qed
    qed
  qed
next
  case (5 depth h memo y)
  then show ?case by (simp add: kept_refl)
next
  case (6 depth h memo y a rs)
  obtain h' memo' res where dc: "deepcopy depth h memo a = (h', memo', res)"
    by (cases "deepcopy depth h memo a")
  from "6.IH"(1) [OF "6.prems"(1)] dc have k1: "kept n h h'" by simp
  show ?case
  proof (cases res)
    case (Inl e)
    with dc k1 show ?thesis by simp
  next
    case (Inr a')
    have k2: "kept n h' (list_append h' y a')"
      using "6.prems"(2) by (rule kept_list_append)
    from k1 k2 have k3: "kept n h (list_append h' y a')" by (rule kept_trans)
    from k3 "6.prems"(1) have "n \<le> length (list_append h' y a')"
      by (auto dest: kept_length)
    from "6.IH"(2) [OF dc [symmetric] _ Inr this "6.prems"(2)]
    have "kept n (list_append h' y a')
            (fst (deepcopy_list depth (list_append h' y a') memo' y rs))"
      by simp
    with k3 have "kept n h (fst (deepcopy_list depth (list_append h' y a') memo' y rs))"
      by (rule kept_trans)
    with dc Inr show ?thesis by simp
  qed
next
  case (7 depth h memo y)
  then show ?case by (simp add: kept_refl)
next
  case (8 depth h memo y key val kvs)
  obtain h' memo' res where dc: "deepcopy depth h memo val = (h', memo', res)"
    by (cases "deepcopy depth h memo val")
  from "8.IH"(1) [OF "8.prems"(1)] dc have k1: "kept n h h'" by simp
  show ?case
  proof (cases res)
    case (Inl e)
    with dc k1 show ?thesis by simp
  next
    case (Inr val')
    have k2: "kept n h' (dict_set h' y key val')"
      using "8.prems"(2) by (rule kept_dict_set)
    from k1 k2 have k3: "kept n h (dict_set h' y key val')" by (rule kept_trans)
    from k3 "8.prems"(1) have "n \<le> length (dict_set h' y key val')"
      by (auto dest: kept_length)
    from "8.IH"(2) [OF dc [symmetric] _ Inr this "8.prems"(2)]
    have "kept n (dict_set h' y key val')
            (fst (deepcopy_dict depth (dict_set h' y key val') memo' y kvs))"
      by simp
    with k3 have "kept n h (fst (deepcopy_dict depth (dict_set h' y key val') memo' y kvs))"
      by (rule kept_trans)
    with dc Inr show ?thesis by simp
  qed
qed

lemma items_loop_kept: "n \<le> gp \<Longrightarrow> kept n h (fst (items_loop fs h gp items))"
proof (induction items arbitrary: h)
  case Nil
  then show ?case by (simp add: kept_refl)
next
  case (Cons item items)
  show ?case
  proof (cases "item_ref fs h item")
    case (Inl e)
    then show ?thesis by (simp add: kept_refl)
  next
    case (Inr res)
    show ?thesis
    proof (cases res)
      case None
      with Inr Cons show ?thesis by simp
    next
      case (Some r)
      from Cons.prems have "kept n h (list_append h gp r)" by (rule kept_list_append)
      moreover from Cons have
        "kept n (list_append h gp r) (fst (items_loop fs (list_append h gp r) gp items))"
        by simp
      ultimately show ?thesis using Inr Some by (simp add: kept_trans)
    qed
  qed
qed

lemma turn_in_store_kept:
  assumes "n \<le> length h" "n \<le> gh"
  shows "kept n h (fst (turn_in_store fs h gh role' content))"
proof (cases "role' \<notin> set [Imm (AStr ''user''), Imm (AStr ''model'')]")
  case True
  then show ?thesis by (simp add: turn_in_store_def kept_refl)
next
  case False
  define h1 where "h1 = h @ [ListObj [] :: 'a obj]"
  define filled where "filled =
     (case content of
        Ref c \<Rightarrow>
          (case deref h1 c of
             Some (ListObj items) \<Rightarrow> items_loop fs h1 (length h) items
           | _ \<Rightarrow> (h1, None))
      | Imm (AStr s) \<Rightarrow> (list_append h1 (length h) (Imm (AStr s)), None)
      | _ \<Rightarrow> (h1, None))"
  have k1: "kept n h h1"
    unfolding h1_def using assms(1) by (rule kept_alloc)
  have "kept n h1 (fst filled)"
    unfolding filled_def using assms(1)
    by (auto simp: kept_refl items_loop_kept kept_list_append
        split: ref.splits atom.splits option.splits obj.splits)
  with k1 have k2: "kept n h (fst filled)" by (rule kept_trans)
  obtain h2 oe where filled: "filled = (h2, oe)" by (cases filled)
  with k2 have k2': "kept n h h2" by simp
  have k3: "kept n h (list_append (h2 @ [ob]) gh r)" for ob r
  proof -
    from k2' assms(1) have "n \<le> length h2" by (auto dest: kept_length)
    then have "kept n h2 (h2 @ [ob])" by (rule kept_alloc)
    moreover have "kept n (h2 @ [ob]) (list_append (h2 @ [ob]) gh r)"
      using assms(2) by (rule kept_list_append)
    ultimately show ?thesis using k2' by (blast intro: kept_trans)
  qed
  have "turn_in_store fs h gh role' content =
     (case filled of
        (h2, Some e) \<Rightarrow> (h2, Some e)
      | (h2, None) \<Rightarrow>
          (case deref h2 (length h) of
             Some (ListObj (p # ps)) \<Rightarrow>
               (let t = length h2;
                    h3 = h2 @ [DictObj [(''role'', role'), (''parts'', Ref (length h))]]
                in (list_append h3 gh (Ref t), None))
           | _ \<Rightarrow> (h2, None)))"
    unfolding turn_in_store_def Let_def filled_def h1_def using False by simp
  then show ?thesis
    using filled k2' k3
    by (auto simp: Let_def split: option.splits obj.splits list.splits)
qed

lemma message_in_store_kept:
  assumes "n \<le> length h" "n \<le> gh"
  shows "kept n h (fst (message_in_store fs h gh msg))"
  using assms
  by (auto simp: message_in_store_def Let_def kept_refl turn_in_store_kept
      split: option.splits obj.splits ref.splits)

lemma messages_loop_kept:
  "n \<le> length h \<Longrightarrow> n \<le> gh \<Longrightarrow> kept n h (fst (messages_loop fs h gh msgs))"
proof (induction msgs arbitrary: h)
  case Nil
  then show ?case by (simp add: kept_refl)
next
  case (Cons msg msgs)
  obtain h' oe where step: "message_in_store fs h gh msg = (h', oe)"
    by (cases "message_in_store fs h gh msg")
  with message_in_store_kept [OF Cons.prems, of fs msg] have k1: "kept n h h'" by simp
  show ?case
  proof (cases oe)
    case None
    from k1 Cons.prems(1) have "n \<le> length h'" by (auto dest: kept_length)
    from Cons.IH [OF this Cons.prems(2)] k1 have "kept n h (fst (messages_loop fs h' gh msgs))"
      by (rule kept_trans [rotated])
    with step None show ?thesis by simp
  next
    case (Some e)
    with step k1 show ?thesis by simp
  qed
qed

lemma adapt_in_store_kept_alloc:
  "kept (length h) (h @ [ListObj []]) (fst (adapt_in_store fs depth h messages))"
proof -
  define h1 where "h1 = h @ [ListObj [] :: 'a obj]"
  have l1: "length h \<le> length h1"
    by (simp add: h1_def)
  obtain h2 memo res where dc: "deepcopy depth h1 [] (Ref messages) = (h2, memo, res)"
    by (cases "deepcopy depth h1 [] (Ref messages)")
  from deepcopy_kept(1) [OF l1, of depth "[]" "Ref messages"] dc
  have k2: "kept (length h) h1 h2" by simp
  with l1 have len: "length h \<le> length h2" by (auto dest: kept_length)
  have k3: "kept (length h) h1 (fst (messages_loop fs h2 (length h) msgs))" for msgs
    using k2 messages_loop_kept [OF len, of "length h" fs msgs] by (auto intro: kept_trans)
  have "adapt_in_store fs depth h messages =
     (case res of
        Inl e \<Rightarrow> (h2, Inl e)
      | Inr processed_messages \<Rightarrow>
          (case (case processed_messages of Ref a \<Rightarrow> deref h2 a | _ \<Rightarrow> None) of
             Some (ListObj msgs) \<Rightarrow>
               (case messages_loop fs h2 (length h) msgs of
                  (h3, Some e) \<Rightarrow> (h3, Inl e)
                | (h3, None) \<Rightarrow> (h3, Inr (Ref (length h))))
           | _ \<Rightarrow> (h2, Inl (Exc TypeError ''messages is not a list''))))"
    unfolding adapt_in_store_def Let_def using dc by (simp add: h1_def)
  then have "kept (length h) h1 (fst (adapt_in_store fs depth h messages))"
    using k2 k3
    by (auto split: sum.splits option.splits obj.splits prod.splits)
       (metis fst_conv)+
  then show ?thesis by (simp add: h1_def)
qed

lemma adapt_in_store_kept: "kept (length h) h (fst (adapt_in_store fs depth h messages))"
proof -
  have "kept (length h) h (h @ [ListObj []])"
    by (rule kept_alloc) simp
  then show ?thesis
    using adapt_in_store_kept_alloc by (rule kept_trans)
qed

lemma adapt_in_store_grows: "length h < length (fst (adapt_in_store fs depth h messages))"
  using kept_length [OF adapt_in_store_kept_alloc, of h fs depth messages] by simp

subsection \<open>What the new objects refer to\<close>

lemma separate_alloc:
  "separate n h \<Longrightarrow> \<forall>r \<in> set (refs_of ob). fresh_ref n r \<Longrightarrow> separate n (h @ [ob])"
  by (auto simp: separate_def nth_append)

lemma separate_deref:
  "separate n h \<Longrightarrow> deref h a = Some ob \<Longrightarrow> n \<le> a \<Longrightarrow> r \<in> set (refs_of ob) \<Longrightarrow> fresh_ref n r"
  by (auto simp: separate_def deref_def split: if_splits)

lemma separate_list_append:
  assumes "separate n h" "fresh_ref n r"
  shows "separate n (list_append h y r)"
proof (cases "deref h y")
  case None
  with assms show ?thesis by (simp add: list_append_def)
next
  case (Some ob)
  show ?thesis
  proof (cases ob)
    case (ListObj rs)
    from Some have y: "y < length h" "h ! y = ob"
      by (auto simp: deref_def split: if_splits)
    have old: "\<forall>r' \<in> set rs. fresh_ref n r'" if "n \<le> y"
      using separate_deref [OF assms(1) Some that] ListObj by simp
    have upd: "\<forall>r' \<in> set (refs_of ((h[y := ListObj (rs @ [r])]) ! a)). fresh_ref n r'"
      if "n \<le> a" "a < length h" for a
    proof (cases "a = y")
      case True
      with that y old assms(2) show ?thesis by auto
    next
      case False
      with that assms(1) show ?thesis by (auto simp: separate_def)
    qed
    have "separate n (h[y := ListObj (rs @ [r])])"
      unfolding separate_def using upd by auto
    with Some ListObj show ?thesis by (simp add: list_append_def)
  next
    case (DictObj kvs)
    with Some assms show ?thesis by (simp add: list_append_def)
  qed
qed

lemma dict_update_subset: "set (dict_update k v kvs) \<subseteq> insert (k, v) (set kvs)"
  by (induction kvs) (auto split: if_splits)

lemma dict_update_refs: "set (map snd (dict_update k v kvs)) \<subseteq> insert v (set (map snd kvs))"
proof -
  have "snd ` set (dict_update k v kvs) \<subseteq> snd ` insert (k, v) (set kvs)"
    by (rule image_mono) (rule dict_update_subset)
  then show ?thesis by simp
qed

lemma separate_dict_set:
  assumes "separate n h" "fresh_ref n r"
  shows "separate n (dict_set h y k r)"
proof (cases "deref h y")
  case None
  with assms show ?thesis by (simp add: dict_set_def)
next
  case (Some ob)
  show ?thesis
  proof (cases ob)
    case (ListObj rs)
    with Some assms show ?thesis by (simp add: dict_set_def)
  next
    case (DictObj kvs)
    from Some have y: "y < length h" "h ! y = ob"
      by (auto simp: deref_def split: if_splits)
    have old: "\<forall>r' \<in> set (map snd kvs). fresh_ref n r'" if "n \<le> y"
      using separate_deref [OF assms(1) Some that] DictObj by simp
    have upd: "\<forall>r' \<in> set (refs_of ((h[y := DictObj (dict_update k r kvs)]) ! a)). fresh_ref n r'"
      if "n \<le> a" "a < length h" for a
    proof (cases "a = y")
      case True
      have "fresh_ref n r'" if "r' \<in> set (map snd (dict_update k r kvs))" for r'
      proof -
        from that dict_update_refs [of k r kvs] have "r' = r \<or> r' \<in> set (map snd kvs)"
          by blast
        with old \<open>n \<le> a\<close> True assms(2) show ?thesis by blast
      qed
      with True y show ?thesis by simp
    next
      case False
      with that assms(1) show ?thesis by (auto simp: separate_def)
    qed
    have "separate n (h[y := DictObj (dict_update k r kvs)])"
      unfolding separate_def using upd by auto
    with Some DictObj show ?thesis by (simp add: dict_set_def)
  qed
qed

lemma length_list_append: "length (list_append h y r) = length h"
  by (simp add: list_append_def split: option.splits obj.splits)

lemma length_dict_set: "length (dict_set h y k r) = length h"
  by (simp add: dict_set_def split: option.splits obj.splits)

lemma deepcopy_separate:
  "separate n h \<Longrightarrow> n \<le> length h \<Longrightarrow> memo_fresh n memo \<Longrightarrow>
     (case deepcopy depth h memo r of
        (h', memo', res) \<Rightarrow>
          separate n h' \<and> memo_fresh n memo' \<and> (\<forall>r'. res = Inr r' \<longrightarrow> fresh_ref n r'))"
  "separate n h \<Longrightarrow> n \<le> length h \<Longrightarrow> memo_fresh n memo \<Longrightarrow>
     (case deepcopy_list depth h memo y rs of
        (h', memo', res) \<Rightarrow> separate n h' \<and> memo_fresh n memo')"
  "separate n h \<Longrightarrow> n \<le> length h \<Longrightarrow> memo_fresh n memo \<Longrightarrow>
     (case deepcopy_dict depth h memo y kvs of
        (h', memo', res) \<Rightarrow> separate n h' \<and> memo_fresh n memo')"
proof (induction depth h memo r and depth h memo y rs and depth h memo y kvs
       rule: deepcopy_deepcopy_list_deepcopy_dict.induct)
  case (1 depth h memo a)
  then show ?case by (simp add: fresh_ref_def)
next
  case (2 depth h memo img)
  then show ?case by (simp add: fresh_ref_def)
next
  case (3 h memo x)
  then show ?case
    by (auto simp: fresh_ref_def memo_fresh_def split: option.splits dest!: map_of_SomeD)
next
  case (4 depth h memo x)
  show ?case
  proof (cases "map_of memo x")
    case (Some y)
    with "4.prems" show ?thesis
      by (auto simp: fresh_ref_def memo_fresh_def dest!: map_of_SomeD)
  next
    case None
    note memo = this
    have fresh_memo: "memo_fresh n ((x, length h) # memo)"
      using "4.prems" by (simp add: memo_fresh_def)
    have fresh_y: "fresh_ref n (Ref (length h))"
      using "4.prems" by (simp add: fresh_ref_def)
    show ?thesis
    proof (cases "deref h x")
      case None
      with memo "4.prems" show ?thesis by simp
    next
      case (Some ob)
      show ?thesis
      proof (cases ob)
        case (ListObj rs)
        have sep: "separate n (h @ [ListObj []])"
          using "4.prems"(1) by (rule separate_alloc) simp
        from "4.prems" have len: "n \<le> length (h @ [ListObj []])" by simp
        have
          "case deepcopy_list depth (h @ [ListObj []]) ((x, length h) # memo) (length h) rs of
             (h', memo', res) \<Rightarrow> separate n h' \<and> memo_fresh n memo'"
          by (rule "4.IH"(1) [OF memo Some ListObj refl sep len fresh_memo])
        with memo Some ListObj fresh_y show ?thesis
          by (auto simp: Let_def split: prod.splits option.splits)
      next
        case (DictObj kvs)
        have sep: "separate n (h @ [DictObj []])"
          using "4.prems"(1) by (rule separate_alloc) simp
        from "4.prems" have len: "n \<le> length (h @ [DictObj []])" by simp
        have
          "case deepcopy_dict depth (h @ [DictObj []]) ((x, length h) # memo) (length h) kvs of
             (h', memo', res) \<Rightarrow> separate n h' \<and> memo_fresh n memo'"
          by (rule "4.IH"(2) [OF memo Some DictObj refl sep len fresh_memo])
        with memo Some DictObj fresh_y show ?thesis
          by (auto simp: Let_def split: prod.splits option.splits)
      qed
    qed
  qed
next
  case (5 depth h memo y)
  then show ?case by simp
next
  case (6 depth h memo y a rs)
  obtain h' memo' res where dc: "deepcopy depth h memo a = (h', memo', res)"
    by (cases "deepcopy depth h memo a")
  from "6.IH"(1) [OF "6.prems"] dc
  have s1: "separate n h'" and m1: "memo_fresh n memo'"
    and f1: "\<And>r'. res = Inr r' \<Longrightarrow> fresh_ref n r'"
    by auto
  from deepcopy_kept(1) [OF "6.prems"(2), of depth memo a] dc have len: "n \<le> length h'"
    using "6.prems"(2) by (auto dest: kept_length)
  show ?case
  proof (cases res)
    case (Inl e)
    with dc s1 m1 show ?thesis by simp
  next
    case (Inr a')
    have s2: "separate n (list_append h' y a')"
      using s1 f1 [OF Inr] by (rule separate_list_append)
    have l2: "n \<le> length (list_append h' y a')"
      using len by (simp add: length_list_append)
    have
      "case deepcopy_list depth (list_append h' y a') memo' y rs of
         (h'', memo'', res) \<Rightarrow> separate n h'' \<and> memo_fresh n memo''"
      by (rule "6.IH"(2) [OF dc [symmetric] refl Inr s2 l2 m1])
    with dc Inr show ?thesis by simp
  qed
next
  case (7 depth h memo y)
  then show ?case by simp
next
  case (8 depth h memo y key val kvs)
  obtain h' memo' res where dc: "deepcopy depth h memo val = (h', memo', res)"
    by (cases "deepcopy depth h memo val")
  from "8.IH"(1) [OF "8.prems"] dc
  have s1: "separate n h'" and m1: "memo_fresh n memo'"
    and f1: "\<And>r'. res = Inr r' \<Longrightarrow> fresh_ref n r'"
    by auto
  from deepcopy_kept(1) [OF "8.prems"(2), of depth memo val] dc have len: "n \<le> length h'"
    using "8.prems"(2) by (auto dest: kept_length)
  show ?case
  proof (cases res)
    case (Inl e)
    with dc s1 m1 show ?thesis by simp
  next
    case (Inr val')
    have s2: "separate n (dict_set h' y key val')"
      using s1 f1 [OF Inr] by (rule separate_dict_set)
    have l2: "n \<le> length (dict_set h' y key val')"
      using len by (simp add: length_dict_set)
    have
      "case deepcopy_dict depth (dict_set h' y key val') memo' y kvs of
         (h'', memo'', res) \<Rightarrow> separate n h'' \<and> memo_fresh n memo''"
      by (rule "8.IH"(2) [OF dc [symmetric] refl Inr s2 l2 m1])
    with dc Inr show ?thesis by simp
  qed
qed

lemma get_ref_fresh:
  "\<forall>r \<in> set (map snd d). fresh_ref n r \<Longrightarrow> fresh_ref n (get_ref d k)"
  by (auto simp: get_ref_def fresh_ref_def split: option.splits dest!: map_of_SomeD)

lemma loaded_ref_fresh: "fresh_ref n (loaded_ref p)"
  by (simp add: loaded_ref_def fresh_ref_def split: part.splits pyval.splits)

lemma fresh_ref_Imm: "fresh_ref n (Imm a)"
  by (simp add: fresh_ref_def)

lemma item_ref_fresh:
  assumes "separate n h" "fresh_ref n item" "item_ref fs h item = Inr (Some r)"
  shows "fresh_ref n r"
proof (cases item)
  case (Imm a)
  with assms(3) show ?thesis
    by (auto simp: item_ref_def loaded_ref_fresh fresh_ref_Imm split: atom.splits if_splits)
next
  case (Loaded img)
  with assms(3) show ?thesis by (simp add: item_ref_def)
next
  case (Ref a)
  with assms(2) have a: "n \<le> a" by (simp add: fresh_ref_def)
  from Ref assms(3) obtain d where d: "deref h a = Some (DictObj d)" and t: "map_of d ''text'' = Some r"
    by (auto simp: item_ref_def split: option.splits obj.splits if_splits)
  from t have "r \<in> set (refs_of (DictObj d))"
    by (auto dest!: map_of_SomeD simp: rev_image_eqI)
  with assms(1) d a show ?thesis by (rule separate_deref)
qed

lemma items_loop_separate:
  "separate n h \<Longrightarrow> \<forall>item \<in> set items. fresh_ref n item \<Longrightarrow>
     separate n (fst (items_loop fs h gp items))"
proof (induction items arbitrary: h)
  case Nil
  then show ?case by simp
next
  case (Cons item items)
  show ?case
  proof (cases "item_ref fs h item")
    case (Inl e)
    with Cons.prems show ?thesis by simp
  next
    case (Inr res)
    show ?thesis
    proof (cases res)
      case None
      with Inr Cons show ?thesis by simp
    next
      case (Some r)
      from Cons.prems Inr Some have "fresh_ref n r"
        by (auto intro: item_ref_fresh)
      with Cons.prems(1) have "separate n (list_append h gp r)"
        by (rule separate_list_append)
      with Cons have "separate n (fst (items_loop fs (list_append h gp r) gp items))"
        by simp
      with Inr Some show ?thesis by simp
    qed
  qed
qed

lemma turn_in_store_separate:
  assumes "separate n h" "n \<le> length h" "fresh_ref n role'" "fresh_ref n content"
  shows "separate n (fst (turn_in_store fs h gh role' content))"
proof (cases "role' \<notin> set [Imm (AStr ''user''), Imm (AStr ''model'')]")
  case True
  with assms(1) show ?thesis by (simp add: turn_in_store_def)
next
  case False
  define h1 where "h1 = h @ [ListObj [] :: 'a obj]"
  define filled where "filled =
     (case content of
        Ref c \<Rightarrow>
          (case deref h1 c of
             Some (ListObj items) \<Rightarrow> items_loop fs h1 (length h) items
           | _ \<Rightarrow> (h1, None))
      | Imm (AStr s) \<Rightarrow> (list_append h1 (length h) (Imm (AStr s)), None)
      | _ \<Rightarrow> (h1, None))"
  have s1: "separate n h1"
    unfolding h1_def using assms(1) by (rule separate_alloc) simp
  have k1: "kept n h h1"
    unfolding h1_def using assms(2) by (rule kept_alloc)
  have loop: "separate n (fst (items_loop fs h1 (length h) items))"
    if "content = Ref c" "deref h1 c = Some (ListObj items)" for c items
  proof -
    from that(1) assms(4) have "n \<le> c" by (simp add: fresh_ref_def)
    with s1 that(2) have "\<forall>item \<in> set items. fresh_ref n item"
      by (auto dest: separate_deref)
    with s1 show ?thesis by (rule items_loop_separate)
  qed
  have "separate n (list_append h1 (length h) (Imm (AStr s)))" for s
    using s1 by (rule separate_list_append) (simp add: fresh_ref_def)
  with s1 loop have s2: "separate n (fst filled)"
    unfolding filled_def
    by (auto split: ref.splits atom.splits option.splits obj.splits)
  have "kept n h1 (fst filled)"
    unfolding filled_def using assms(2)
    by (auto simp: kept_refl items_loop_kept kept_list_append
        split: ref.splits atom.splits option.splits obj.splits)
  with k1 have "kept n h (fst filled)" by (rule kept_trans)
  with assms(2) have len: "n \<le> length (fst filled)" by (auto dest: kept_length)
  obtain h2 oe where filled: "filled = (h2, oe)" by (cases filled)
  have s3: "separate n (list_append
      (h2 @ [DictObj [(''role'', role'), (''parts'', Ref (length h))]]) gh (Ref (length h2)))"
  proof (rule separate_list_append)
    show "separate n (h2 @ [DictObj [(''role'', role'), (''parts'', Ref (length h))]])"
      using s2 filled assms(2,3) by (auto intro!: separate_alloc simp: fresh_ref_def)
    show "fresh_ref n (Ref (length h2))"
      using len filled by (simp add: fresh_ref_def)
  qed
  have "turn_in_store fs h gh role' content =
     (case filled of
        (h2, Some e) \<Rightarrow> (h2, Some e)
      | (h2, None) \<Rightarrow>
          (case deref h2 (length h) of
             Some (ListObj (p # ps)) \<Rightarrow>
               (let t = length h2;
                    h3 = h2 @ [DictObj [(''role'', role'), (''parts'', Ref (length h))]]
                in (list_append h3 gh (Ref t), None))
           | _ \<Rightarrow> (h2, None)))"
    unfolding turn_in_store_def Let_def filled_def h1_def using False by simp
  then show ?thesis
    using filled s2 s3
    by (auto simp: Let_def split: option.splits obj.splits list.splits)
qed

lemma message_in_store_separate:
  assumes "separate n h" "n \<le> length h" "fresh_ref n msg"
  shows "separate n (fst (message_in_store fs h gh msg))"
proof (cases "case msg of Ref a \<Rightarrow> deref h a | _ \<Rightarrow> None")
  case None
  with assms(1) show ?thesis by (simp add: message_in_store_def)
next
  case (Some ob)
  show ?thesis
  proof (cases ob)
    case (ListObj rs)
    with Some assms(1) show ?thesis by (simp add: message_in_store_def)
  next
    case (DictObj d)
    from Some obtain a where a: "msg = Ref a" "deref h a = Some ob"
      by (auto split: ref.splits)
    with assms(3) have "n \<le> a" by (simp add: fresh_ref_def)
    have "fresh_ref n r" if "r \<in> set (map snd d)" for r
      using separate_deref [OF assms(1) a(2) \<open>n \<le> a\<close>, of r] that DictObj by simp
    then have all: "\<forall>r \<in> set (map snd d). fresh_ref n r"
      by blast
    have "fresh_ref n (get_ref d ''role'')" "fresh_ref n (get_ref d ''content'')"
      by (rule get_ref_fresh [OF all])+
    moreover have "fresh_ref n (Imm (AStr ''model'') :: 'a ref)"
      by (simp add: fresh_ref_def)
    ultimately show ?thesis
      using Some DictObj assms(1,2)
      by (simp add: message_in_store_def Let_def turn_in_store_separate)
  qed
qed

lemma messages_loop_separate:
  "separate n h \<Longrightarrow> n \<le> length h \<Longrightarrow> n \<le> gh \<Longrightarrow> \<forall>m \<in> set msgs. fresh_ref n m \<Longrightarrow>
     separate n (fst (messages_loop fs h gh msgs))"
proof (induction msgs arbitrary: h)
  case Nil
  then show ?case by simp
next
  case (Cons msg msgs)
  obtain h' oe where step: "message_in_store fs h gh msg = (h', oe)"
    by (cases "message_in_store fs h gh msg")
  from Cons.prems have "separate n (fst (message_in_store fs h gh msg))"
    by (auto intro: message_in_store_separate)
  with step have s1: "separate n h'" by simp
  from message_in_store_kept [OF Cons.prems(2,3), of fs msg] step Cons.prems(2)
  have len: "n \<le> length h'" by (auto dest: kept_length)
  show ?case
  proof (cases oe)
    case None
    from Cons.IH [OF s1 len Cons.prems(3)] Cons.prems(4)
    have "separate n (fst (messages_loop fs h' gh msgs))" by simp
    with step None show ?thesis by simp
  next
    case (Some e)
    with step s1 show ?thesis by simp
  qed
qed

lemma adapt_in_store_separate: "separate (length h) (fst (adapt_in_store fs depth h messages))"
proof -
  define n where "n = length h"
  define h1 where "h1 = h @ [ListObj [] :: 'a obj]"
  have "separate n h"
    by (auto simp: separate_def n_def)
  then have s1: "separate n h1"
    unfolding h1_def by (rule separate_alloc) simp
  have l1: "n \<le> length h1"
    by (simp add: h1_def n_def)
  obtain h2 memo res where dc: "deepcopy depth h1 [] (Ref messages) = (h2, memo, res)"
    by (cases "deepcopy depth h1 [] (Ref messages)")
  from deepcopy_separate(1) [OF s1 l1, of "[]" depth "Ref messages"] dc
  have s2: "separate n h2" and fresh: "\<And>r. res = Inr r \<Longrightarrow> fresh_ref n r"
    by (auto simp: memo_fresh_def)
  from deepcopy_kept(1) [OF l1, of depth "[]" "Ref messages"] dc l1
  have l2: "n \<le> length h2" by (auto dest: kept_length)
  have loop: "separate n (fst (messages_loop fs h2 n msgs))"
    if "res = Inr (Ref a)" "deref h2 a = Some (ListObj msgs)" for a msgs
  proof -
    from fresh [OF that(1)] have "n \<le> a" by (simp add: fresh_ref_def)
    with s2 that(2) have "\<forall>m \<in> set msgs. fresh_ref n m"
      by (auto dest: separate_deref)
    with s2 l2 show ?thesis by (auto intro: messages_loop_separate)
  qed
  have "adapt_in_store fs depth h messages =
     (case res of
        Inl e \<Rightarrow> (h2, Inl e)
      | Inr processed_messages \<Rightarrow>
          (case (case processed_messages of Ref a \<Rightarrow> deref h2 a | _ \<Rightarrow> None) of
             Some (ListObj msgs) \<Rightarrow>
               (case messages_loop fs h2 n msgs of
                  (h3, Some e) \<Rightarrow> (h3, Inl e)
                | (h3, None) \<Rightarrow> (h3, Inr (Ref n)))
           | _ \<Rightarrow> (h2, Inl (Exc TypeError ''messages is not a list''))))"
    unfolding adapt_in_store_def Let_def n_def using dc by (simp add: h1_def)
  then have "separate n (fst (adapt_in_store fs depth h messages))"
    using s2 loop
    by (auto split: sum.splits option.splits obj.splits prod.splits ref.splits)
       (metis fst_conv)+
  then show ?thesis by (simp add: n_def)
qed

lemma adapt_in_store_result:
  "snd (adapt_in_store fs depth h messages) = Inr r \<Longrightarrow> r = Ref (length h)"
  by (auto simp: adapt_in_store_def Let_def
      split: prod.splits sum.splits option.splits obj.splits ref.splits)

subsection \<open>The caller's history\<close>

lemma separate_nth:
  "separate n h \<Longrightarrow> n \<le> a \<Longrightarrow> a < length h \<Longrightarrow> r \<in> set (refs_of (h ! a)) \<Longrightarrow> fresh_ref n r"
  by (simp add: separate_def)

text \<open>
  C8. Whatever the store, the recursion depth and the outcome, after the adaptation every
  object that existed before the call (so every message dict and content list of the
  caller) is exactly what it was; the adapted history, when there is one, is a list
  allocated during the call; and no object allocated during the call (the copy of the
  messages, the part lists, the turns, the history) refers to an object that existed
  before: the adapter works on a copy that shares no list or dict with the caller.
\<close>

theorem adapt_in_store_frame:
  assumes "adapt_in_store fs depth h messages = (h', out)"
  shows "length h \<le> length h' \<and>
         (\<forall>a < length h. h' ! a = h ! a) \<and>
         (\<forall>r. out = Inr r \<longrightarrow> r = Ref (length h) \<and> length h < length h') \<and>
         (\<forall>a b. length h \<le> a \<and> a < length h' \<and> Ref b \<in> set (refs_of (h' ! a)) \<longrightarrow>
                length h \<le> b)"
proof (intro conjI allI impI)
  from adapt_in_store_kept [of h fs depth messages] assms
  have kept: "kept (length h) h h'" by simp
  then show "length h \<le> length h'" by (rule kept_length)
  show "h' ! a = h ! a" if "a < length h" for a
    using kept that that by (rule kept_nth)
  show "r = Ref (length h)" if "out = Inr r" for r
    using adapt_in_store_result [of fs depth h messages r] assms that by simp
  show "length h < length h'" if "out = Inr r" for r
    using adapt_in_store_grows [of h fs depth messages] assms by simp
  show "length h \<le> b"
    if "length h \<le> a \<and> a < length h' \<and> Ref b \<in> set (refs_of (h' ! a))" for a b
  proof -
    from adapt_in_store_separate [of h fs depth messages] assms
    have sep: "separate (length h) h'" by simp
    from that have a: "length h \<le> a" "a < length h'" and b: "Ref b \<in> set (refs_of (h' ! a))"
      by simp_all
    from separate_nth [OF sep a b] show ?thesis
      by (simp add: fresh_ref_def)
  qed
qed

theorem adapt_in_store_frame_witness:
  "adapt_in_store sample_files 10 sample_store 5 =
     (sample_store @
      [ListObj [Ref 14, Ref 16],
       ListObj [Ref 8, Ref 9, Ref 12],
       DictObj [(''role'', Imm (AStr ''tool'')), (''content'', Imm (AStr ''42''))],
       DictObj [(''role'', Imm (AStr ''assistant'')), (''content'', Ref 10)],
       ListObj [Ref 11, Imm (AStr ''/tmp/shots/missing.png'')],
       DictObj [(''type'', Imm (AStr ''text'')), (''text'', Imm (AStr ''hello''))],
       DictObj [(''role'', Imm (AStr ''user'')), (''content'', Imm (AStr ''hi''))],
       ListObj [Imm (AStr ''hello''), Imm (AStr ''[Image not found: missing.png]'')],
       DictObj [(''role'', Imm (AStr ''model'')), (''parts'', Ref 13)],
       ListObj [Imm (AStr ''hi'')],
       DictObj [(''role'', Imm (AStr ''user'')), (''parts'', Ref 15)]],
      Inr (Ref 6)) \<and>
   fst (adapt_in_store sample_files 10 sample_store 5) ! 1 =
     ListObj [Ref 3, Imm (AStr ''/tmp/shots/missing.png'')] \<and>
   fst (adapt_in_store sample_files 10 sample_store 5) ! 2 =
     DictObj [(''role'', Imm (AStr ''assistant'')), (''content'', Ref 1)] \<and>
   fst (adapt_in_store sample_files 10 sample_store 5) ! 5 = ListObj [Ref 0, Ref 2, Ref 4]"
proof -
  have run: "adapt_in_store sample_files 10 sample_store 5 =
     (sample_store @
      [ListObj [Ref 14, Ref 16],
       ListObj [Ref 8, Ref 9, Ref 12],
       DictObj [(''role'', Imm (AStr ''tool'')), (''content'', Imm (AStr ''42''))],
       DictObj [(''role'', Imm (AStr ''assistant'')), (''content'', Ref 10)],
       ListObj [Ref 11, Imm (AStr ''/tmp/shots/missing.png'')],
       DictObj [(''type'', Imm (AStr ''text'')), (''text'', Imm (AStr ''hello''))],
       DictObj [(''role'', Imm (AStr ''user'')), (''content'', Imm (AStr ''hi''))],
       ListObj [Imm (AStr ''hello''), Imm (AStr ''[Image not found: missing.png]'')],
       DictObj [(''role'', Imm (AStr ''model'')), (''parts'', Ref 13)],
       ListObj [Imm (AStr ''hi'')],
       DictObj [(''role'', Imm (AStr ''user'')), (''parts'', Ref 15)]],
      Inr (Ref 6))"
    by (simp add: adapt_in_store_def message_in_store_def turn_in_store_def item_ref_def
        get_ref_def load_image_def loaded_ref_def basename_def sample_files_def sample_store_def
        deref_def list_append_def dict_set_def eval_nat_numeral Let_def)
  have collapse: "adapt_in_store sample_files 10 sample_store 5 =
      (fst (adapt_in_store sample_files 10 sample_store 5),
       snd (adapt_in_store sample_files 10 sample_store 5))"
    by simp
  have old: "\<forall>a < length sample_store.
      fst (adapt_in_store sample_files 10 sample_store 5) ! a = sample_store ! a"
    using adapt_in_store_frame [OF collapse] by blast
  have len: "length sample_store = 6"
    by (simp add: sample_store_def)
  have one: "fst (adapt_in_store sample_files 10 sample_store 5) ! 1 =
     ListObj [Ref 3, Imm (AStr ''/tmp/shots/missing.png'')]"
    using old [rule_format, of 1] by (simp add: len) (simp add: sample_store_def)
  have two: "fst (adapt_in_store sample_files 10 sample_store 5) ! 2 =
     DictObj [(''role'', Imm (AStr ''assistant'')), (''content'', Ref 1)]"
    using old [rule_format, of 2] by (simp add: len) (simp add: sample_store_def)
  have five: "fst (adapt_in_store sample_files 10 sample_store 5) ! 5 =
     ListObj [Ref 0, Ref 2, Ref 4]"
    using old [rule_format, of 5] by (simp add: len) (simp add: sample_store_def)
  from run one two five show ?thesis by blast
qed

subsection \<open>The two descriptions of the adapter\<close>

text \<open>
  On the sample store the two descriptions of the adapter agree: the history built in
  the store denotes the history computed from the messages the store denotes.
\<close>

lemma sample_store_agreement:
  "messages_at 10 sample_store 5 =
     [[(''role'', PStr ''tool''), (''content'', PStr ''42'')],
      [(''role'', PStr ''assistant''),
       (''content'', PList [PDict [(''type'', PStr ''text''), (''text'', PStr ''hello'')],
                            PStr ''/tmp/shots/missing.png''])],
      [(''role'', PStr ''user''), (''content'', PStr ''hi'')]] \<and>
   adapt_history sample_files (messages_at 10 sample_store 5) [] =
     Inr (history_at 10 (fst (adapt_in_store sample_files 10 sample_store 5))
            (Ref (length sample_store)))"
proof -
  have run: "fst (adapt_in_store sample_files 10 sample_store 5) =
     sample_store @
      [ListObj [Ref 14, Ref 16],
       ListObj [Ref 8, Ref 9, Ref 12],
       DictObj [(''role'', Imm (AStr ''tool'')), (''content'', Imm (AStr ''42''))],
       DictObj [(''role'', Imm (AStr ''assistant'')), (''content'', Ref 10)],
       ListObj [Ref 11, Imm (AStr ''/tmp/shots/missing.png'')],
       DictObj [(''type'', Imm (AStr ''text'')), (''text'', Imm (AStr ''hello''))],
       DictObj [(''role'', Imm (AStr ''user'')), (''content'', Imm (AStr ''hi''))],
       ListObj [Imm (AStr ''hello''), Imm (AStr ''[Image not found: missing.png]'')],
       DictObj [(''role'', Imm (AStr ''model'')), (''parts'', Ref 13)],
       ListObj [Imm (AStr ''hi'')],
       DictObj [(''role'', Imm (AStr ''user'')), (''parts'', Ref 15)]]"
    by (simp add: adapt_in_store_def message_in_store_def turn_in_store_def item_ref_def
        get_ref_def load_image_def loaded_ref_def basename_def sample_files_def sample_store_def
        deref_def list_append_def dict_set_def eval_nat_numeral Let_def)
  have msgs: "messages_at 10 sample_store 5 =
     [[(''role'', PStr ''tool''), (''content'', PStr ''42'')],
      [(''role'', PStr ''assistant''),
       (''content'', PList [PDict [(''type'', PStr ''text''), (''text'', PStr ''hello'')],
                            PStr ''/tmp/shots/missing.png''])],
      [(''role'', PStr ''user''), (''content'', PStr ''hi'')]]"
    by (simp add: messages_at_def sample_store_def deref_def eval_nat_numeral)
  have hist: "history_at 10 (fst (adapt_in_store sample_files 10 sample_store 5))
       (Ref (length sample_store)) =
     [\<lparr>role = PStr ''model'',
       parts = [PartValue (PStr ''hello''), PartValue (PStr ''[Image not found: missing.png]'')]\<rparr>,
      \<lparr>role = PStr ''user'', parts = [PartValue (PStr ''hi'')]\<rparr>]"
    unfolding run
    by (simp add: history_at_def turn_at_def part_at_def get_ref_def sample_store_def deref_def
        eval_nat_numeral)
  have "adapt_history sample_files
     [[(''role'', PStr ''tool''), (''content'', PStr ''42'')],
      [(''role'', PStr ''assistant''),
       (''content'', PList [PDict [(''type'', PStr ''text''), (''text'', PStr ''hello'')],
                            PStr ''/tmp/shots/missing.png''])],
      [(''role'', PStr ''user''), (''content'', PStr ''hi'')]] [] =
     Inr [\<lparr>role = PStr ''model'',
            parts = [PartValue (PStr ''hello''),
                     PartValue (PStr ''[Image not found: missing.png]'')]\<rparr>,
          \<lparr>role = PStr ''user'', parts = [PartValue (PStr ''hi'')]\<rparr>]"
    by (simp add: adapt_message_def adapt_with_role_def process_content_def py_get_def
        load_image_def basename_def sample_files_def)
  with msgs hist show ?thesis by simp
qed

end
